theory Spec2Isabelle
  imports Complex_Main "HOL-Library.AList"
begin

section \<open>Values shared by the relay and the stores\<close>

text \<open>
  Times are JavaScript \<^verbatim>\<open>Date\<close> values, read as milliseconds since the epoch; the
  difference of two dates is a number of milliseconds. User identifiers, session
  identifiers, room tags and object identifiers are strings. Every \<^verbatim>\<open>new Date()\<close>,
  \<^verbatim>\<open>uuid.v4()\<close> and \<^verbatim>\<open>Math.random()\<close> of the source is a parameter of the
  operation that calls it.
\<close>

type_synonym time = int
type_synonym uid = string

text \<open>Client payloads that the server stores or relays without looking inside.\<close>

datatype jsval =
    JUndefined
  | JNull
  | JBool bool
  | JNum rat
  | JStr string
  | JDate time
  | JArr "jsval list"
  | JObj "(string \<times> jsval) list"

text \<open>JavaScript truthiness, as used by \<^verbatim>\<open>a || b\<close> and \<^verbatim>\<open>if (a)\<close>.\<close>

fun truthy :: "jsval \<Rightarrow> bool" where
  "truthy JUndefined = False"
| "truthy JNull = False"
| "truthy (JBool b) = b"
| "truthy (JNum n) = (n \<noteq> 0)"
| "truthy (JStr s) = (s \<noteq> [])"
| "truthy (JDate t) = True"
| "truthy (JArr xs) = True"
| "truthy (JObj kvs) = True"

section \<open>The persisted session (models/VRSession.js)\<close>

record member =
  user :: uid
  joinedAt :: time
  position :: jsval
  rotation :: jsval
  avatar :: string

record banned =
  banned_user :: uid
  bannedAt :: time
  reason :: "string option"

record settings =
  isPrivate :: bool
  requireInvite :: bool
  voiceChatEnabled :: bool
  handTrackingEnabled :: bool
  physicsEnabled :: bool

record session =
  sessionId :: string
  name :: string
  description :: "string option"
  host :: uid
  environment :: string
  maxUsers :: int
  currentUsers :: "member list"
  sharedObjectDocs :: "jsval list"
  settings :: settings
  inviteCode :: "string option"
  invitedUsers :: "uid list"
  bannedUsers :: "banned list"
  isActive :: bool
  endedAt :: "time option"
  duration :: "int option"
  createdAt :: time

text \<open>
  \<^verbatim>\<open>generateInviteCode\<close>: the six characters drawn from \<^verbatim>\<open>Math.random()\<close> are the
  parameter \<open>code\<close>; the method stores the code and returns it.
\<close>

definition generateInviteCode :: "string \<Rightarrow> session \<Rightarrow> string \<times> session" where
  "generateInviteCode code s = (code, s\<lparr>inviteCode := Some code\<rparr>)"

text \<open>
  \<^verbatim>\<open>canUserJoin\<close>, branch by branch: a banned user, a full session, a session that
  requires an invite the user does not hold.
\<close>

definition canUserJoin :: "session \<Rightarrow> uid \<Rightarrow> bool" where
  "canUserJoin s userId =
     (if list_ex (\<lambda>b. banned_user b = userId) (bannedUsers s) then False
      else if int (length (currentUsers s)) \<ge> maxUsers s then False
      else if requireInvite (settings s) \<and> userId \<notin> set (invitedUsers s) then False
      else True)"

section \<open>The persisted chat message (models/ChatMessage.js)\<close>

text \<open>
  The fields of the schema, and the two that its option \<^verbatim>\<open>timestamps: true\<close> adds:
  the store stamps \<^verbatim>\<open>createdAt\<close> and \<^verbatim>\<open>updatedAt\<close> when it saves a new document,
  and \<^verbatim>\<open>updatedAt\<close> again at every later save of the document.
\<close>

record chat_message =
  msg_id :: string
  msg_user :: uid
  msg_username :: string
  message :: string
  room :: string
  messageType :: string
  metadata :: jsval
  editedAt :: "time option"
  deletedAt :: "time option"
  msg_createdAt :: time
  msg_updatedAt :: time

section \<open>The durable stores and the request/response surface\<close>

text \<open>
  The part of a User document that the session and chat routes write:
  \<^verbatim>\<open>currentVRSession\<close>, \<^verbatim>\<open>stats.sessionsJoined\<close> and \<^verbatim>\<open>stats.messagesSent\<close>.
\<close>

record user_doc =
  user_id :: uid
  currentVRSession :: "string option"
  sessionsJoined :: nat
  messagesSent :: nat

text \<open>The three collections, each a list of documents in insertion order.\<close>

record db =
  db_sessions :: "session list"
  db_users :: "user_doc list"
  db_messages :: "chat_message list"

text \<open>
  \<^verbatim>\<open>req.user\<close>, the identity that the authentication middleware attaches to a
  request: the routes read \<^verbatim>\<open>_id\<close>, \<^verbatim>\<open>username\<close> and
  \<^verbatim>\<open>vrPreferences?.defaultAvatar\<close> of it.
\<close>

record requser =
  ru_id :: uid
  ru_username :: string
  ru_defaultAvatar :: "string option"

text \<open>The entry of the paged room listing that \<^verbatim>\<open>GET /rooms\<close> returns for one room.\<close>

record room_summary =
  rs_room :: string
  lastMessage :: time
  messageCount :: nat
  lastMessageText :: string
  lastUsername :: string

text \<open>
  \<^verbatim>\<open>totalPages\<close> is \<^verbatim>\<open>Math.ceil(totalMessages / limit)\<close>; with a limit of 0 the
  quotient is not finite and the JSON body carries \<^verbatim>\<open>null\<close>, here \<open>None\<close>.
\<close>

record pagination =
  currentPage :: nat
  totalPages :: "nat option"
  totalMessages :: nat
  hasMore :: bool

text \<open>A response is the HTTP status and the JSON body sent with it.\<close>

datatype body =
    ErrorBody string
  | ValidationBody "string list"
  | MessageBody string
  | SessionBody session
  | SessionMsgBody string session
  | JoinedBody string string string string "member list" settings
  | InviteBody string string
  | ChatMsgBody string chat_message
  | HistoryBody "chat_message list" pagination
  | RoomsBody "room_summary list"

datatype response = Response (status: nat) (body: body)

text \<open>
  A string field of a request body: absent, or the string sent. \<^verbatim>\<open>a || b\<close> on such a
  field takes \<open>b\<close> when the field is absent or empty.
\<close>

definition or_str :: "string option \<Rightarrow> string \<Rightarrow> string" where
  "or_str x y = (case x of None \<Rightarrow> y | Some s \<Rightarrow> if s = [] then y else s)"

text \<open>
  express-validator: \<^verbatim>\<open>isLength({min, max})\<close> on the value as sent, and the
  \<^verbatim>\<open>trim()\<close> sanitizer that follows it in each chain. The characters trimmed are
  the white space of the 8-bit range.
\<close>

definition isLength :: "nat \<Rightarrow> nat \<Rightarrow> string \<Rightarrow> bool" where
  "isLength lo hi s = (lo \<le> length s \<and> length s \<le> hi)"

definition is_space :: "char \<Rightarrow> bool" where
  "is_space c = (of_char c \<in> {9, 10, 11, 12, 13, 32, 160 :: nat})"

definition trim :: "string \<Rightarrow> string" where
  "trim s = rev (dropWhile is_space (rev (dropWhile is_space s)))"

text \<open>
  \<^verbatim>\<open>findOne\<close> with the filters the session routes use, and \<^verbatim>\<open>save\<close> of the
  document it found: the first document that matches is the one written back.
\<close>

definition findActive :: "string \<Rightarrow> session list \<Rightarrow> session option" where
  "findActive sid docs = find (\<lambda>d. sessionId d = sid \<and> isActive d) docs"

definition findActiveHost :: "string \<Rightarrow> uid \<Rightarrow> session list \<Rightarrow> session option" where
  "findActiveHost sid h docs = find (\<lambda>d. sessionId d = sid \<and> isActive d \<and> host d = h) docs"

fun modify_first :: "('a \<Rightarrow> bool) \<Rightarrow> ('a \<Rightarrow> 'a) \<Rightarrow> 'a list \<Rightarrow> 'a list" where
  "modify_first P f [] = []"
| "modify_first P f (x # xs) = (if P x then f x # xs else x # modify_first P f xs)"

definition saveActive :: "string \<Rightarrow> session \<Rightarrow> db \<Rightarrow> db" where
  "saveActive sid s d =
     d\<lparr>db_sessions :=
         modify_first (\<lambda>x. sessionId x = sid \<and> isActive x) (\<lambda>_. s) (db_sessions d)\<rparr>"

definition saveActiveHost :: "string \<Rightarrow> uid \<Rightarrow> session \<Rightarrow> db \<Rightarrow> db" where
  "saveActiveHost sid h s d =
     d\<lparr>db_sessions :=
         modify_first (\<lambda>x. sessionId x = sid \<and> isActive x \<and> host x = h) (\<lambda>_. s)
           (db_sessions d)\<rparr>"

text \<open>\<^verbatim>\<open>User.findByIdAndUpdate\<close> and \<^verbatim>\<open>User.updateMany\<close>, on the fields modelled.\<close>

definition updateUser :: "uid \<Rightarrow> (user_doc \<Rightarrow> user_doc) \<Rightarrow> db \<Rightarrow> db" where
  "updateUser u f d = d\<lparr>db_users := modify_first (\<lambda>x. user_id x = u) f (db_users d)\<rparr>"

definition updateManyUsers :: "uid list \<Rightarrow> (user_doc \<Rightarrow> user_doc) \<Rightarrow> db \<Rightarrow> db" where
  "updateManyUsers us f d =
     d\<lparr>db_users := map (\<lambda>x. if user_id x \<in> set us then f x else x) (db_users d)\<rparr>"

section \<open>Session routes (routes/vrSessions.js)\<close>

record settings_patch =
  p_isPrivate :: "bool option"
  p_requireInvite :: "bool option"
  p_voiceChatEnabled :: "bool option"
  p_handTrackingEnabled :: "bool option"
  p_physicsEnabled :: "bool option"

record create_req =
  req_name :: "string option"
  req_description :: "string option"
  req_environment :: "string option"
  req_maxUsers :: "int option"
  req_settings :: settings_patch

record join_req =
  jr_inviteCode :: "string option"
  jr_position :: jsval
  jr_avatar :: "string option"

record update_req =
  upd_name :: "string option"
  upd_description :: "string option"
  upd_maxUsers :: "int option"
  upd_settings :: "settings_patch option"

definition vec3 :: "rat \<Rightarrow> rat \<Rightarrow> rat \<Rightarrow> jsval" where
  "vec3 x y z = JObj [(''x'', JNum x), (''y'', JNum y), (''z'', JNum z)]"

definition internal_error :: response where
  "internal_error = Response 500 (ErrorBody ''Internal server error'')"

text \<open>
  The validation chains of \<^verbatim>\<open>POST /\<close> and \<^verbatim>\<open>PUT /:sessionId\<close>: the messages of
  the checks that fail, in the order of the chains. A field marked \<^verbatim>\<open>optional()\<close>
  is checked only when it is sent.
\<close>

definition validate_create :: "create_req \<Rightarrow> string list" where
  "validate_create r =
     (if isLength 3 100 (case req_name r of None \<Rightarrow> [] | Some n \<Rightarrow> n) then []
      else [''Session name must be between 3 and 100 characters'']) @
     (case req_description r of None \<Rightarrow> []
      | Some d \<Rightarrow> if isLength 0 500 d then []
                  else [''Description must be less than 500 characters'']) @
     (case req_environment r of None \<Rightarrow> []
      | Some e \<Rightarrow> if e \<in> set [''default'', ''space'', ''forest'', ''ocean'', ''city'', ''custom'']
                  then [] else [''Invalid environment type'']) @
     (case req_maxUsers r of None \<Rightarrow> []
      | Some n \<Rightarrow> if 2 \<le> n \<and> n \<le> 100 then []
                  else [''Max users must be between 2 and 100''])"

definition validate_update :: "update_req \<Rightarrow> string list" where
  "validate_update r =
     (case upd_name r of None \<Rightarrow> []
      | Some n \<Rightarrow> if isLength 3 100 n then []
                  else [''Session name must be between 3 and 100 characters'']) @
     (case upd_description r of None \<Rightarrow> []
      | Some d \<Rightarrow> if isLength 0 500 d then []
                  else [''Description must be less than 500 characters'']) @
     (case upd_maxUsers r of None \<Rightarrow> []
      | Some n \<Rightarrow> if 2 \<le> n \<and> n \<le> 100 then []
                  else [''Max users must be between 2 and 100''])"

text \<open>\<^verbatim>\<open>{ ...session.settings, ...updates.settings }\<close>: a field sent replaces the stored one.\<close>

definition merge_settings :: "settings \<Rightarrow> settings_patch \<Rightarrow> settings" where
  "merge_settings s p =
     \<lparr> isPrivate = (case p_isPrivate p of None \<Rightarrow> isPrivate s | Some b \<Rightarrow> b),
       requireInvite = (case p_requireInvite p of None \<Rightarrow> requireInvite s | Some b \<Rightarrow> b),
       voiceChatEnabled = (case p_voiceChatEnabled p of None \<Rightarrow> voiceChatEnabled s | Some b \<Rightarrow> b),
       handTrackingEnabled =
         (case p_handTrackingEnabled p of None \<Rightarrow> handTrackingEnabled s | Some b \<Rightarrow> b),
       physicsEnabled = (case p_physicsEnabled p of None \<Rightarrow> physicsEnabled s | Some b \<Rightarrow> b) \<rparr>"

text \<open>
  The loop over \<^verbatim>\<open>allowedUpdates\<close>, on the sanitized body: name and description
  arrive trimmed.
\<close>

definition apply_updates :: "update_req \<Rightarrow> session \<Rightarrow> session" where
  "apply_updates r s =
     (let s1 = (case upd_name r of None \<Rightarrow> s | Some n \<Rightarrow> s\<lparr>name := trim n\<rparr>);
          s2 = (case upd_description r of None \<Rightarrow> s1 | Some d \<Rightarrow> s1\<lparr>description := Some (trim d)\<rparr>);
          s3 = (case upd_maxUsers r of None \<Rightarrow> s2 | Some n \<Rightarrow> s2\<lparr>maxUsers := n\<rparr>)
      in case upd_settings r of None \<Rightarrow> s3
         | Some p \<Rightarrow> s3\<lparr>settings := merge_settings (settings s3) p\<rparr>)"

text \<open>
  \<^verbatim>\<open>POST /\<close>. The schema's checks at \<^verbatim>\<open>save\<close> that the validation chain does not
  already imply are the required name (empty after trimming) and the unique indexes on
  \<^verbatim>\<open>sessionId\<close> and \<^verbatim>\<open>inviteCode\<close>; a failing save is caught and answered 500.
\<close>

definition create_session ::
  "requser \<Rightarrow> create_req \<Rightarrow> string \<Rightarrow> string \<Rightarrow> time \<Rightarrow> db \<Rightarrow> response \<times> db" where
  "create_session ru r uuid code now d =
     (let errors = validate_create r in
      if errors \<noteq> [] then (Response 400 (ValidationBody errors), d)
      else
        let st = req_settings r;
            vrSession0 =
              \<lparr> sessionId = uuid,
                name = trim (case req_name r of None \<Rightarrow> [] | Some n \<Rightarrow> n),
                description = map_option trim (req_description r),
                host = ru_id ru,
                environment = (case req_environment r of None \<Rightarrow> ''default'' | Some e \<Rightarrow> e),
                maxUsers = (case req_maxUsers r of None \<Rightarrow> 20 | Some n \<Rightarrow> n),
                currentUsers =
                  [\<lparr> user = ru_id ru, joinedAt = now, position = vec3 0 (16 / 10) (- 3),
                     rotation = vec3 0 0 0,
                     avatar = or_str (ru_defaultAvatar ru) ''sphere'' \<rparr>],
                sharedObjectDocs = [],
                settings =
                  \<lparr> isPrivate = (p_isPrivate st = Some True),
                    requireInvite = (p_requireInvite st = Some True),
                    voiceChatEnabled = (p_voiceChatEnabled st \<noteq> Some False),
                    handTrackingEnabled = (p_handTrackingEnabled st \<noteq> Some False),
                    physicsEnabled = (p_physicsEnabled st \<noteq> Some False) \<rparr>,
                inviteCode = None, invitedUsers = [], bannedUsers = [],
                isActive = True, endedAt = None, duration = None, createdAt = now \<rparr>;
            vrSession =
              (if p_requireInvite st = Some True \<or> p_isPrivate st = Some True
               then snd (generateInviteCode code vrSession0) else vrSession0)
        in
          if name vrSession = []
             \<or> list_ex (\<lambda>x. sessionId x = uuid) (db_sessions d)
             \<or> (inviteCode vrSession \<noteq> None
                 \<and> list_ex (\<lambda>x. inviteCode x = inviteCode vrSession) (db_sessions d))
          then (internal_error, d)
          else
            (Response 201 (SessionMsgBody ''VR session created successfully'' vrSession),
             updateUser (ru_id ru)
               (\<lambda>u. u\<lparr>currentVRSession := Some uuid, sessionsJoined := sessionsJoined u + 1\<rparr>)
               (d\<lparr>db_sessions := db_sessions d @ [vrSession]\<rparr>)))"

text \<open>\<^verbatim>\<open>GET /:sessionId\<close>; the caller is optional (\<^verbatim>\<open>optionalAuth\<close>).\<close>

definition get_session :: "requser option \<Rightarrow> string \<Rightarrow> db \<Rightarrow> response \<times> db" where
  "get_session ru sid d =
     (case findActive sid (db_sessions d) of
        None \<Rightarrow> (Response 404 (ErrorBody ''VR session not found''), d)
      | Some s \<Rightarrow>
          let notHost = (case ru of None \<Rightarrow> True | Some u \<Rightarrow> host s \<noteq> ru_id u) in
          if isPrivate (settings s) \<and> notHost
          then (Response 403 (ErrorBody ''Access denied to private session''), d)
          else (Response 200 (SessionBody (if notHost then s\<lparr>inviteCode := None\<rparr> else s)), d))"

text \<open>
  \<^verbatim>\<open>POST /:sessionId/join\<close>. \<open>r1\<close> and \<open>r2\<close> are the two draws of
  \<^verbatim>\<open>Math.random()\<close> for the default position.
\<close>

definition join_session ::
  "requser \<Rightarrow> string \<Rightarrow> join_req \<Rightarrow> rat \<Rightarrow> rat \<Rightarrow> time \<Rightarrow> db \<Rightarrow> response \<times> db" where
  "join_session ru sid r r1 r2 now d =
     (case findActive sid (db_sessions d) of
        None \<Rightarrow> (Response 404 (ErrorBody ''VR session not found''), d)
      | Some s \<Rightarrow>
          if \<not> canUserJoin s (ru_id ru)
          then (Response 403 (ErrorBody ''Cannot join this session''), d)
          else if requireInvite (settings s) \<and> inviteCode s \<noteq> jr_inviteCode r
          then (Response 403 (ErrorBody ''Invalid invite code''), d)
          else if find (\<lambda>m. user m = ru_id ru) (currentUsers s) \<noteq> None
          then (Response 400 (ErrorBody ''User already in session''), d)
          else
            let s' = s\<lparr>currentUsers := currentUsers s @
                      [\<lparr> user = ru_id ru, joinedAt = now,
                         position = (if truthy (jr_position r) then jr_position r
                                     else vec3 (r1 * 4 - 2) (16 / 10) (r2 * 4 - 2)),
                         rotation = vec3 0 0 0,
                         avatar = or_str (jr_avatar r) (or_str (ru_defaultAvatar ru) ''sphere'') \<rparr>]\<rparr>
            in (Response 200
                  (JoinedBody ''Joined VR session successfully'' (sessionId s') (name s')
                     (environment s') (currentUsers s') (settings s')),
                updateUser (ru_id ru)
                  (\<lambda>u. u\<lparr>currentVRSession := Some sid, sessionsJoined := sessionsJoined u + 1\<rparr>)
                  (saveActive sid s' d)))"

text \<open>
  \<^verbatim>\<open>POST /:sessionId/leave\<close>. \<^verbatim>\<open>Math.floor((endedAt - createdAt) / 1000)\<close> is the
  integer quotient of the milliseconds by 1000, rounded down.
\<close>

definition leave_session :: "requser \<Rightarrow> string \<Rightarrow> time \<Rightarrow> db \<Rightarrow> response \<times> db" where
  "leave_session ru sid now d =
     (case findActive sid (db_sessions d) of
        None \<Rightarrow> (Response 404 (ErrorBody ''VR session not found''), d)
      | Some s \<Rightarrow>
          let s1 = s\<lparr>currentUsers := filter (\<lambda>m. user m \<noteq> ru_id ru) (currentUsers s)\<rparr>;
              s2 = (if length (currentUsers s1) = 0
                    then s1\<lparr>isActive := False, endedAt := Some now,
                            duration := Some ((now - createdAt s1) div 1000)\<rparr>
                    else s1)
          in (Response 200 (MessageBody ''Left VR session successfully''),
              updateUser (ru_id ru) (\<lambda>u. u\<lparr>currentVRSession := None\<rparr>) (saveActive sid s2 d)))"

text \<open>
  \<^verbatim>\<open>PUT /:sessionId\<close> (host only): validation, lookup, whitelisted merge, save. The
  save refuses a name that was sent and is empty after trimming (the schema's required
  name).
\<close>

definition update_session :: "requser \<Rightarrow> string \<Rightarrow> update_req \<Rightarrow> db \<Rightarrow> response \<times> db" where
  "update_session ru sid r d =
     (let errors = validate_update r in
      if errors \<noteq> [] then (Response 400 (ValidationBody errors), d)
      else
        case findActiveHost sid (ru_id ru) (db_sessions d) of
          None \<Rightarrow> (Response 404 (ErrorBody ''VR session not found or unauthorized''), d)
        | Some s \<Rightarrow>
            let s' = apply_updates r s in
            if upd_name r \<noteq> None \<and> name s' = [] then (internal_error, d)
            else (Response 200 (SessionMsgBody ''VR session updated successfully'' s'),
                  saveActiveHost sid (ru_id ru) s' d))"

text \<open>\<^verbatim>\<open>DELETE /:sessionId\<close> (host only).\<close>

definition end_session :: "requser \<Rightarrow> string \<Rightarrow> time \<Rightarrow> db \<Rightarrow> response \<times> db" where
  "end_session ru sid now d =
     (case findActiveHost sid (ru_id ru) (db_sessions d) of
        None \<Rightarrow> (Response 404 (ErrorBody ''VR session not found or unauthorized''), d)
      | Some s \<Rightarrow>
          let s' = s\<lparr>isActive := False, endedAt := Some now,
                      duration := Some ((now - createdAt s) div 1000)\<rparr>
          in (Response 200 (MessageBody ''VR session ended successfully''),
              updateManyUsers (map user (currentUsers s')) (\<lambda>u. u\<lparr>currentVRSession := None\<rparr>)
                (saveActiveHost sid (ru_id ru) s' d)))"

text \<open>
  \<^verbatim>\<open>POST /:sessionId/invite-code\<close> (host only). The save fails on the unique index
  when another session already holds the code drawn.
\<close>

definition regenerate_invite_code ::
  "requser \<Rightarrow> string \<Rightarrow> string \<Rightarrow> db \<Rightarrow> response \<times> db" where
  "regenerate_invite_code ru sid code d =
     (case findActiveHost sid (ru_id ru) (db_sessions d) of
        None \<Rightarrow> (Response 404 (ErrorBody ''VR session not found or unauthorized''), d)
      | Some s \<Rightarrow>
          let (newInviteCode, s') = generateInviteCode code s in
          if inviteCode s \<noteq> Some code \<and> list_ex (\<lambda>x. inviteCode x = Some code) (db_sessions d)
          then (internal_error, d)
          else (Response 200 (InviteBody ''New invite code generated'' newInviteCode),
                saveActiveHost sid (ru_id ru) s' d))"

text \<open>
  One request to the session store. The listing \<^verbatim>\<open>GET /\<close> is a query that writes
  nothing and is not among them.
\<close>

datatype session_op =
    Create requser create_req string string
  | Get "requser option" string
  | Join requser string join_req rat rat
  | Leave requser string
  | Update requser string update_req
  | End requser string
  | Regenerate requser string string

fun run_op :: "session_op \<Rightarrow> time \<Rightarrow> db \<Rightarrow> response \<times> db" where
  "run_op (Create ru r uuid code) now d = create_session ru r uuid code now d"
| "run_op (Get ru sid) now d = get_session ru sid d"
| "run_op (Join ru sid r r1 r2) now d = join_session ru sid r r1 r2 now d"
| "run_op (Leave ru sid) now d = leave_session ru sid now d"
| "run_op (Update ru sid r) now d = update_session ru sid r d"
| "run_op (End ru sid) now d = end_session ru sid now d"
| "run_op (Regenerate ru sid code) now d = regenerate_invite_code ru sid code d"

text \<open>A history of requests, each with the time at which it is served.\<close>

fun run_ops :: "(session_op \<times> time) list \<Rightarrow> db \<Rightarrow> db" where
  "run_ops [] d = d"
| "run_ops ((op, now) # rest) d = run_ops rest (snd (run_op op now d))"

section \<open>Chat routes (routes/chat.js)\<close>

text \<open>
  \<^verbatim>\<open>GET /history/:room\<close>. \<open>page\<close> and \<open>limit\<close> are the query parameters read as
  natural numbers. The documents of the room that are not soft-deleted are sorted by
  creation time, newest first (documents of equal time keep their stored order), then
  \<open>skip\<close> of them are dropped and at most \<open>limit\<close> kept, a limit of 0 being no limit to
  the store; a negative \<open>skip\<close> (page 0) is refused by the store and answered 500. The
  page is delivered oldest first.
\<close>

definition live_in_room :: "string \<Rightarrow> chat_message list \<Rightarrow> chat_message list" where
  "live_in_room r ms = filter (\<lambda>m. room m = r \<and> deletedAt m = None) ms"

definition history_page :: "string \<Rightarrow> nat \<Rightarrow> nat \<Rightarrow> chat_message list \<Rightarrow> chat_message list" where
  "history_page r page limit ms =
     (let sorted_desc = sort_key (\<lambda>m. - msg_createdAt m) (live_in_room r ms);
          skipped = drop ((page - 1) * limit) sorted_desc
      in if limit = 0 then skipped else take limit skipped)"

definition get_history :: "string \<Rightarrow> nat \<Rightarrow> nat \<Rightarrow> db \<Rightarrow> response \<times> db" where
  "get_history r page limit d =
     (if page = 0 \<and> limit > 0 then (internal_error, d)
      else
        let messages = history_page r page limit (db_messages d);
            total = length (live_in_room r (db_messages d));
            skip = (page - 1) * limit
        in (Response 200
              (HistoryBody (rev messages)
                 \<lparr> currentPage = page,
                   totalPages = (if limit = 0 then None else Some ((total + limit - 1) div limit)),
                   totalMessages = total,
                   hasMore = (skip + length messages < total) \<rparr>),
            d))"

text \<open>
  \<^verbatim>\<open>POST /send\<close>. \<open>oid\<close> is the identifier the store gives the new document and
  \<open>now\<close> the time at which it saves it and stamps both timestamps. The
  save refuses a body that is empty after trimming (the schema's required message) and
  a message type outside the schema's enumeration.
\<close>

record send_req =
  sr_message :: "string option"
  sr_room :: "string option"
  sr_messageType :: "string option"
  sr_metadata :: jsval

definition validate_send :: "send_req \<Rightarrow> string list" where
  "validate_send r =
     (if isLength 1 1000 (case sr_message r of None \<Rightarrow> [] | Some m \<Rightarrow> m) then []
      else [''Message must be between 1 and 1000 characters'']) @
     (case sr_room r of None \<Rightarrow> []
      | Some x \<Rightarrow> if isLength 1 50 x then []
                  else [''Room name must be between 1 and 50 characters''])"

definition send_message :: "requser \<Rightarrow> send_req \<Rightarrow> string \<Rightarrow> time \<Rightarrow> db \<Rightarrow> response \<times> db" where
  "send_message ru r oid now d =
     (let errors = validate_send r in
      if errors \<noteq> [] then (Response 400 (ValidationBody errors), d)
      else
        let chatMessage =
              \<lparr> msg_id = oid, msg_user = ru_id ru, msg_username = ru_username ru,
                message = trim (case sr_message r of None \<Rightarrow> [] | Some m \<Rightarrow> m),
                room = (case sr_room r of None \<Rightarrow> ''global'' | Some x \<Rightarrow> x),
                messageType = (case sr_messageType r of None \<Rightarrow> ''text'' | Some t \<Rightarrow> t),
                metadata = (case sr_metadata r of JUndefined \<Rightarrow> JObj [] | v \<Rightarrow> v),
                editedAt = None, deletedAt = None, msg_createdAt = now, msg_updatedAt = now \<rparr>
        in
          if message chatMessage = [] \<or> msg_username chatMessage = []
             \<or> messageType chatMessage \<notin> set [''text'', ''image'', ''voice'', ''system'']
             \<or> list_ex (\<lambda>m. msg_id m = oid) (db_messages d)
          then (internal_error, d)
          else
            (Response 201 (ChatMsgBody ''Message sent successfully'' chatMessage),
             updateUser (ru_id ru) (\<lambda>u. u\<lparr>messagesSent := messagesSent u + 1\<rparr>)
               (d\<lparr>db_messages := db_messages d @ [chatMessage]\<rparr>)))"

text \<open>
  \<^verbatim>\<open>PUT /:messageId\<close>: validation of the new body, lookup of the caller's own
  message that is not soft-deleted, the 15-minute check, the two assignments and the
  save. The save refuses a body that is empty after trimming; otherwise it writes the
  document back and stamps \<^verbatim>\<open>updatedAt\<close> with its own reading of the clock, the
  parameter \<open>saved\<close>, while \<open>now\<close> is the handler's \<^verbatim>\<open>new Date()\<close>.
\<close>

definition findOwnMessage :: "string \<Rightarrow> uid \<Rightarrow> chat_message list \<Rightarrow> chat_message option" where
  "findOwnMessage mid u ms = find (\<lambda>m. msg_id m = mid \<and> msg_user m = u \<and> deletedAt m = None) ms"

definition saveOwnMessage :: "string \<Rightarrow> uid \<Rightarrow> chat_message \<Rightarrow> db \<Rightarrow> db" where
  "saveOwnMessage mid u m d =
     d\<lparr>db_messages :=
         modify_first (\<lambda>x. msg_id x = mid \<and> msg_user x = u \<and> deletedAt x = None) (\<lambda>_. m)
           (db_messages d)\<rparr>"

definition edit_message ::
  "requser \<Rightarrow> string \<Rightarrow> string option \<Rightarrow> time \<Rightarrow> time \<Rightarrow> db \<Rightarrow> response \<times> db" where
  "edit_message ru mid msg now saved d =
     (if \<not> isLength 1 1000 (case msg of None \<Rightarrow> [] | Some m \<Rightarrow> m)
      then (Response 400 (ValidationBody [''Message must be between 1 and 1000 characters'']), d)
      else
        case findOwnMessage mid (ru_id ru) (db_messages d) of
          None \<Rightarrow> (Response 404 (ErrorBody ''Message not found or unauthorized''), d)
        | Some chatMessage \<Rightarrow>
            let fifteenMinutesAgo = now - 15 * 60 * 1000 in
            if msg_createdAt chatMessage < fifteenMinutesAgo
            then (Response 400 (ErrorBody ''Message is too old to edit''), d)
            else
              let chatMessage' =
                    chatMessage\<lparr>message := trim (case msg of None \<Rightarrow> [] | Some m \<Rightarrow> m),
                                editedAt := Some now, msg_updatedAt := saved\<rparr>
              in if message chatMessage' = [] then (internal_error, d)
                 else (Response 200 (ChatMsgBody ''Message updated successfully'' chatMessage'),
                       saveOwnMessage mid (ru_id ru) chatMessage' d))"

text \<open>
  \<^verbatim>\<open>DELETE /:messageId\<close>: the soft delete. The save stamps \<^verbatim>\<open>updatedAt\<close> as it
  does for an edit.
\<close>

definition delete_message :: "requser \<Rightarrow> string \<Rightarrow> time \<Rightarrow> time \<Rightarrow> db \<Rightarrow> response \<times> db" where
  "delete_message ru mid now saved d =
     (case findOwnMessage mid (ru_id ru) (db_messages d) of
        None \<Rightarrow> (Response 404 (ErrorBody ''Message not found or unauthorized''), d)
      | Some chatMessage \<Rightarrow>
          (Response 200 (MessageBody ''Message deleted successfully''),
           saveOwnMessage mid (ru_id ru)
             (chatMessage\<lparr>deletedAt := Some now, msg_updatedAt := saved\<rparr>) d))"

text \<open>
  \<^verbatim>\<open>GET /rooms\<close>, stage by stage: \<^verbatim>\<open>$match\<close> keeps the documents that are not
  soft-deleted, \<^verbatim>\<open>$group\<close> makes one entry for each room among them, \<^verbatim>\<open>$sort\<close>
  orders the entries by last message time, newest first, and \<^verbatim>\<open>$limit\<close> keeps 20.
\<close>

definition room_group :: "string \<Rightarrow> chat_message list \<Rightarrow> room_summary list" where
  "room_group r matched =
     (case filter (\<lambda>m. room m = r) matched of
        [] \<Rightarrow> []
      | m # ms \<Rightarrow>
          [\<lparr> rs_room = r,
             lastMessage = fold max (map msg_createdAt ms) (msg_createdAt m),
             messageCount = length (m # ms),
             lastMessageText = message (last (m # ms)),
             lastUsername = msg_username (last (m # ms)) \<rparr>])"

definition rooms_aggregate :: "chat_message list \<Rightarrow> room_summary list" where
  "rooms_aggregate ms =
     (let matched = filter (\<lambda>m. deletedAt m = None) ms;
          grouped = concat (map (\<lambda>r. room_group r matched) (remdups (map room matched)));
          sorted_desc = sort_key (\<lambda>g. - lastMessage g) grouped
      in take 20 sorted_desc)"

definition get_rooms :: "db \<Rightarrow> response \<times> db" where
  "get_rooms d = (Response 200 (RoomsBody (rooms_aggregate (db_messages d))), d)"

section \<open>The realtime relay (server.js)\<close>

text \<open>
  The three process-wide \<^verbatim>\<open>Map\<close>s are association lists: \<^verbatim>\<open>Map.set\<close> keeps the
  place of a key that is present and appends a new one, as \<open>AList.update\<close> does, and
  \<^verbatim>\<open>Map.values()\<close> reads the values in that order. A \<^verbatim>\<open>Set\<close> of user identifiers
  is a list without duplicates, in insertion order. A shared object is a plain object:
  its fields by name. \<open>socketRooms\<close> is the socket library's record of the rooms every
  socket has joined, the state behind \<^verbatim>\<open>socket.join\<close> and \<^verbatim>\<open>socket.leave\<close>.
\<close>

type_synonym obj = "(string \<times> jsval) list"

record conn =
  socketId :: string
  username :: string
  conn_joinedAt :: time
  currentRoom :: "string option"
  vrPosition :: jsval
  vrRotation :: jsval

record vr_room =
  room_id :: string
  users :: "uid list"
  room_createdAt :: time
  sharedObjects :: "(string \<times> obj) list"

record relay_msg =
  rm_id :: string
  rm_userId :: uid
  rm_username :: string
  rm_message :: jsval
  rm_timestamp :: time
  rm_room :: string

record relay =
  activeUsers :: "(uid \<times> conn) list"
  vrSessions :: "(string \<times> vr_room) list"
  chatRooms :: "(string \<times> relay_msg list) list"
  socketRooms :: "(string \<times> string list) list"

text \<open>The authenticated socket: its id and the identity the middleware attached to it.\<close>

record socket =
  sock_id :: string
  userId :: uid
  sock_username :: string

text \<open>
  What a handler sends: \<^verbatim>\<open>io.emit\<close> reaches every socket, \<^verbatim>\<open>io.to(room).emit\<close> the
  sockets of a room, \<^verbatim>\<open>socket.to(room).emit\<close> the sockets of a room other than the
  sender, \<^verbatim>\<open>socket.emit\<close> the sender alone.
\<close>

datatype target =
    Everyone
  | InRoom string
  | InRoomExcept string string
  | Caller string

datatype event =
    UsersUpdate "conn list"
  | VrSessionJoined string "uid list" "obj list"
  | UserJoinedVr uid string
  | UserPositionUpdate uid jsval jsval
  | SharedObjectCreated obj
  | SharedObjectUpdated string obj
  | ChatMessageEv relay_msg
  | ChatHistory string "relay_msg list"
  | UserLeftVr uid string

type_synonym emission = "target \<times> event"

definition set_add :: "'a \<Rightarrow> 'a list \<Rightarrow> 'a list" where
  "set_add x xs = (if x \<in> set xs then xs else xs @ [x])"

definition socket_join :: "string \<Rightarrow> string \<Rightarrow> relay \<Rightarrow> relay" where
  "socket_join sid r st =
     st\<lparr>socketRooms := AList.update sid
          (set_add r (case map_of (socketRooms st) sid of None \<Rightarrow> [] | Some rs \<Rightarrow> rs))
          (socketRooms st)\<rparr>"

definition socket_leave :: "string \<Rightarrow> string \<Rightarrow> relay \<Rightarrow> relay" where
  "socket_leave sid r st =
     st\<lparr>socketRooms := AList.update sid
          (removeAll r (case map_of (socketRooms st) sid of None \<Rightarrow> [] | Some rs \<Rightarrow> rs))
          (socketRooms st)\<rparr>"

text \<open>The \<^verbatim>\<open>connection\<close> callback; a new socket is in the room named by its own id.\<close>

definition on_connection :: "socket \<Rightarrow> time \<Rightarrow> relay \<Rightarrow> relay \<times> emission list" where
  "on_connection sock now st =
     (let st1 = socket_join (sock_id sock) (sock_id sock) st;
          st2 = st1\<lparr>activeUsers := AList.update (userId sock)
                  \<lparr> socketId = sock_id sock, username = sock_username sock, conn_joinedAt = now,
                    currentRoom = None, vrPosition = JNull, vrRotation = JNull \<rparr>
                  (activeUsers st1)\<rparr>
      in (st2, [(Everyone, UsersUpdate (map snd (activeUsers st2)))]))"

text \<open>
  \<^verbatim>\<open>user.currentRoom\<close> as a condition: the room recorded, unless none is recorded or
  the one recorded is the empty string.
\<close>

definition joined_room :: "conn \<Rightarrow> string option" where
  "joined_room u = (case currentRoom u of None \<Rightarrow> None | Some r \<Rightarrow> if r = [] then None else Some r)"

text \<open>\<^verbatim>\<open>join_vr_session\<close>, statement by statement.\<close>

definition join_vr_session :: "socket \<Rightarrow> string \<Rightarrow> time \<Rightarrow> relay \<Rightarrow> relay \<times> emission list" where
  "join_vr_session sock sid now st =
     (case map_of (activeUsers st) (userId sock) of
        None \<Rightarrow> (st, [])
      | Some u \<Rightarrow>
          let st1 = (case joined_room u of
                       Some prev \<Rightarrow> socket_leave (sock_id sock) prev st
                     | None \<Rightarrow> st);
              st2 = socket_join (sock_id sock) sid st1;
              st3 = st2\<lparr>activeUsers :=
                      AList.update (userId sock) (u\<lparr>currentRoom := Some sid\<rparr>) (activeUsers st2)\<rparr>;
              st4 = (if map_of (vrSessions st3) sid = None
                     then st3\<lparr>vrSessions := AList.update sid
                            \<lparr> room_id = sid, users = [], room_createdAt = now,
                              sharedObjects = [] \<rparr> (vrSessions st3)\<rparr>
                     else st3)
          in case map_of (vrSessions st4) sid of
               None \<Rightarrow> (st4, [])
             | Some sess \<Rightarrow>
                 let sess' = sess\<lparr>users := set_add (userId sock) (users sess)\<rparr>;
                     st5 = st4\<lparr>vrSessions := AList.update sid sess' (vrSessions st4)\<rparr>
                 in (st5,
                     [(Caller (sock_id sock),
                       VrSessionJoined sid (users sess') (map snd (sharedObjects sess'))),
                      (InRoomExcept sid (sock_id sock),
                       UserJoinedVr (userId sock) (username u))]))"

text \<open>\<^verbatim>\<open>vr_position_update\<close>.\<close>

definition vr_position_update ::
  "socket \<Rightarrow> jsval \<Rightarrow> jsval \<Rightarrow> relay \<Rightarrow> relay \<times> emission list" where
  "vr_position_update sock pos rot st =
     (case map_of (activeUsers st) (userId sock) of
        None \<Rightarrow> (st, [])
      | Some u \<Rightarrow>
          (case joined_room u of
             None \<Rightarrow> (st, [])
           | Some r \<Rightarrow>
               (st\<lparr>activeUsers := AList.update (userId sock)
                      (u\<lparr>vrPosition := pos, vrRotation := rot\<rparr>) (activeUsers st)\<rparr>,
                [(InRoomExcept r (sock_id sock), UserPositionUpdate (userId sock) pos rot)])))"

text \<open>
  A field of a client payload read by name; a field that is not there reads
  \<^verbatim>\<open>undefined\<close>.
\<close>

definition field :: "obj \<Rightarrow> string \<Rightarrow> jsval" where
  "field data k = (case map_of data k of None \<Rightarrow> JUndefined | Some v \<Rightarrow> v)"

text \<open>
  The object literal that \<^verbatim>\<open>create_shared_object\<close> builds from the descriptor, the
  caller and the time.
\<close>

definition build_shared_object :: "string \<Rightarrow> obj \<Rightarrow> uid \<Rightarrow> time \<Rightarrow> obj" where
  "build_shared_object objectId data creator now =
     [(''id'', JStr objectId),
      (''type'', field data ''type''),
      (''position'', field data ''position''),
      (''rotation'', field data ''rotation''),
      (''scale'', field data ''scale''),
      (''properties'', field data ''properties''),
      (''createdBy'', JStr creator),
      (''createdAt'', JDate now)]"

text \<open>
  \<^verbatim>\<open>create_shared_object\<close>. \<open>data_id\<close> is \<^verbatim>\<open>data.id\<close>, absent or a string, \<open>data\<close>
  the other fields of the descriptor, \<open>uuid\<close> the identifier generated when the client
  supplies none.
\<close>

definition create_shared_object ::
  "socket \<Rightarrow> string option \<Rightarrow> obj \<Rightarrow> string \<Rightarrow> time \<Rightarrow> relay \<Rightarrow> relay \<times> emission list" where
  "create_shared_object sock data_id data uuid now st =
     (case map_of (activeUsers st) (userId sock) of
        None \<Rightarrow> (st, [])
      | Some u \<Rightarrow>
          (case joined_room u of
             None \<Rightarrow> (st, [])
           | Some r \<Rightarrow>
               (case map_of (vrSessions st) r of
                  None \<Rightarrow> (st, [])
                | Some sess \<Rightarrow>
                    let objectId = or_str data_id uuid;
                        sharedObject = build_shared_object objectId data (userId sock) now;
                        sess' = sess\<lparr>sharedObjects :=
                                  AList.update objectId sharedObject (sharedObjects sess)\<rparr>
                    in (st\<lparr>vrSessions := AList.update r sess' (vrSessions st)\<rparr>,
                        [(InRoom r, SharedObjectCreated sharedObject)]))))"

text \<open>
  \<^verbatim>\<open>Object.assign(object, updates)\<close>: every field of \<open>updates\<close>, in order, is written
  over the object.
\<close>

definition object_assign :: "obj \<Rightarrow> obj \<Rightarrow> obj" where
  "object_assign object updates = fold (\<lambda>(k, v). AList.update k v) updates object"

text \<open>\<^verbatim>\<open>update_shared_object\<close>; \<open>data_id\<close> is \<^verbatim>\<open>data.id\<close>, \<open>updates\<close> is \<^verbatim>\<open>data.updates\<close>.\<close>

definition update_shared_object ::
  "socket \<Rightarrow> string \<Rightarrow> obj \<Rightarrow> relay \<Rightarrow> relay \<times> emission list" where
  "update_shared_object sock data_id updates st =
     (case map_of (activeUsers st) (userId sock) of
        None \<Rightarrow> (st, [])
      | Some u \<Rightarrow>
          (case joined_room u of
             None \<Rightarrow> (st, [])
           | Some r \<Rightarrow>
               (case map_of (vrSessions st) r of
                  None \<Rightarrow> (st, [])
                | Some sess \<Rightarrow>
                    (case map_of (sharedObjects sess) data_id of
                       None \<Rightarrow> (st, [])
                     | Some object \<Rightarrow>
                         let sess' = sess\<lparr>sharedObjects :=
                                       AList.update data_id (object_assign object updates)
                                         (sharedObjects sess)\<rparr>
                         in (st\<lparr>vrSessions := AList.update r sess' (vrSessions st)\<rparr>,
                             [(InRoomExcept r (sock_id sock),
                               SharedObjectUpdated data_id updates)])))))"

text \<open>
  \<^verbatim>\<open>send_chat_message\<close>: the message is appended to the log of its room, and
  \<^verbatim>\<open>splice(0, length - 100)\<close> removes the oldest entries of a log longer than 100.
\<close>

definition send_chat_message ::
  "socket \<Rightarrow> jsval \<Rightarrow> string option \<Rightarrow> string \<Rightarrow> time \<Rightarrow> relay \<Rightarrow> relay \<times> emission list" where
  "send_chat_message sock data_message data_room uuid now st =
     (case map_of (activeUsers st) (userId sock) of
        None \<Rightarrow> (st, [])
      | Some u \<Rightarrow>
          let msg = \<lparr> rm_id = uuid, rm_userId = userId sock, rm_username = username u,
                      rm_message = data_message, rm_timestamp = now,
                      rm_room = or_str data_room ''global'' \<rparr>;
              rooms1 = (if map_of (chatRooms st) (rm_room msg) = None
                        then AList.update (rm_room msg) [] (chatRooms st) else chatRooms st);
              pushed = (case map_of rooms1 (rm_room msg) of None \<Rightarrow> [] | Some l \<Rightarrow> l) @ [msg];
              roomMessages = (if length pushed > 100 then drop (length pushed - 100) pushed
                              else pushed)
          in (st\<lparr>chatRooms := AList.update (rm_room msg) roomMessages rooms1\<rparr>,
              [(if rm_room msg = ''global'' then Everyone else InRoom (rm_room msg),
                ChatMessageEv msg)]))"

text \<open>\<^verbatim>\<open>chatRooms.get(room) || []\<close>: the log of a room, empty when the room has none.\<close>

definition room_log :: "relay \<Rightarrow> string \<Rightarrow> relay_msg list" where
  "room_log st r = (case map_of (chatRooms st) r of None \<Rightarrow> [] | Some l \<Rightarrow> l)"

text \<open>\<^verbatim>\<open>get_chat_history\<close>; the room defaults to the global room when none is sent.\<close>

definition get_chat_history :: "socket \<Rightarrow> string option \<Rightarrow> relay \<Rightarrow> relay \<times> emission list" where
  "get_chat_history sock data_room st =
     (let r = (case data_room of None \<Rightarrow> ''global'' | Some x \<Rightarrow> x);
          messages = room_log st r
      in (st, [(Caller (sock_id sock), ChatHistory r messages)]))"

text \<open>
  \<^verbatim>\<open>disconnect\<close>. The socket library has taken the socket out of all its rooms
  when the handler runs.
\<close>

definition on_disconnect :: "socket \<Rightarrow> relay \<Rightarrow> relay \<times> emission list" where
  "on_disconnect sock st0 =
     (let st = st0\<lparr>socketRooms := AList.delete (sock_id sock) (socketRooms st0)\<rparr>;
          (st1, out) =
            (case map_of (activeUsers st) (userId sock) of
               None \<Rightarrow> (st, [])
             | Some u \<Rightarrow>
                 (case joined_room u of
                    None \<Rightarrow> (st, [])
                  | Some r \<Rightarrow>
                      (case map_of (vrSessions st) r of
                         None \<Rightarrow> (st, [])
                       | Some sess \<Rightarrow>
                           let sess' = sess\<lparr>users := removeAll (userId sock) (users sess)\<rparr> in
                           if length (users sess') = 0
                           then (st\<lparr>vrSessions := AList.delete r (vrSessions st)\<rparr>, [])
                           else (st\<lparr>vrSessions := AList.update r sess' (vrSessions st)\<rparr>,
                                 [(InRoomExcept r (sock_id sock),
                                   UserLeftVr (userId sock) (username u))]))));
          st2 = st1\<lparr>activeUsers := AList.delete (userId sock) (activeUsers st1)\<rparr>
      in (st2, out @ [(Everyone, UsersUpdate (map snd (activeUsers st2)))]))"

text \<open>
  The server process: the relay's memory beside the durable stores. A relay event is
  dispatched to its handler, which is given the relay's memory only.
\<close>

record server =
  relay_state :: relay
  store :: db

datatype relay_event =
    Connection time
  | JoinVrSession string time
  | VrPositionUpdate jsval jsval
  | CreateSharedObject "string option" obj string time
  | UpdateSharedObject string obj
  | SendChatMessage jsval "string option" string time
  | GetChatHistory "string option"
  | Disconnect

fun relay_handler :: "socket \<Rightarrow> relay_event \<Rightarrow> relay \<Rightarrow> relay \<times> emission list" where
  "relay_handler sock (Connection now) st = on_connection sock now st"
| "relay_handler sock (JoinVrSession sid now) st = join_vr_session sock sid now st"
| "relay_handler sock (VrPositionUpdate pos rot) st = vr_position_update sock pos rot st"
| "relay_handler sock (CreateSharedObject i data uuid now) st =
     create_shared_object sock i data uuid now st"
| "relay_handler sock (UpdateSharedObject i updates) st = update_shared_object sock i updates st"
| "relay_handler sock (SendChatMessage m r uuid now) st = send_chat_message sock m r uuid now st"
| "relay_handler sock (GetChatHistory r) st = get_chat_history sock r st"
| "relay_handler sock Disconnect st = on_disconnect sock st"

definition dispatch :: "socket \<Rightarrow> relay_event \<Rightarrow> server \<Rightarrow> server \<times> emission list" where
  "dispatch sock ev srv =
     (let (st', out) = relay_handler sock ev (relay_state srv)
      in (srv\<lparr>relay_state := st'\<rparr>, out))"

text \<open>A history of relay events, each from its socket, from a given server state.\<close>

fun dispatch_all :: "(socket \<times> relay_event) list \<Rightarrow> server \<Rightarrow> server" where
  "dispatch_all [] srv = srv"
| "dispatch_all ((sock, ev) # rest) srv = dispatch_all rest (fst (dispatch sock ev srv))"

definition initial_relay :: relay where
  "initial_relay = \<lparr> activeUsers = [], vrSessions = [], chatRooms = [], socketRooms = [] \<rparr>"

text \<open>
  The room a socket's user is in, as the object handlers test it: the user is
  connected, a current room is recorded, and the room table has that room.
\<close>

definition room_of :: "relay \<Rightarrow> socket \<Rightarrow> (string \<times> vr_room) option" where
  "room_of st sock =
     (case map_of (activeUsers st) (userId sock) of
        None \<Rightarrow> None
      | Some u \<Rightarrow>
          (case joined_room u of
             None \<Rightarrow> None
           | Some r \<Rightarrow> map_option (Pair r) (map_of (vrSessions st) r)))"

text \<open>The \<open>n\<close> most recent entries of a log, oldest first.\<close>

definition last_n :: "nat \<Rightarrow> 'a list \<Rightarrow> 'a list" where
  "last_n n xs = drop (length xs - n) xs"

text \<open>
  The messages that a history of relay events appends to the log of room \<open>r\<close>, in
  arrival order: one for every \<^verbatim>\<open>send_chat_message\<close> of a connected user whose room
  tag (the global room when none is sent) is \<open>r\<close>.
\<close>

fun appended :: "string \<Rightarrow> (socket \<times> relay_event) list \<Rightarrow> relay \<Rightarrow> relay_msg list" where
  "appended r [] st = []"
| "appended r ((sock, ev) # rest) st =
     (case ev of
        SendChatMessage m data_room uuid now \<Rightarrow>
          (case map_of (activeUsers st) (userId sock) of
             None \<Rightarrow> []
           | Some u \<Rightarrow>
               if or_str data_room ''global'' = r
               then [\<lparr> rm_id = uuid, rm_userId = userId sock, rm_username = username u,
                       rm_message = m, rm_timestamp = now, rm_room = r \<rparr>]
               else [])
      | _ \<Rightarrow> [])
     @ appended r rest (fst (relay_handler sock ev st))"

section \<open>Sample data\<close>

definition alice :: requser where
  "alice = \<lparr> ru_id = ''u1'', ru_username = ''alice'', ru_defaultAvatar = None \<rparr>"

definition bob :: requser where
  "bob = \<lparr> ru_id = ''u2'', ru_username = ''bob'', ru_defaultAvatar = None \<rparr>"

definition carol :: requser where
  "carol = \<lparr> ru_id = ''u3'', ru_username = ''carol'', ru_defaultAvatar = None \<rparr>"

definition mallory :: requser where
  "mallory = \<lparr> ru_id = ''u4'', ru_username = ''mallory'', ru_defaultAvatar = None \<rparr>"

definition demo_member :: "uid \<Rightarrow> time \<Rightarrow> member" where
  "demo_member u t =
     \<lparr> user = u, joinedAt = t, position = vec3 0 (16 / 10) (- 3), rotation = vec3 0 0 0,
       avatar = ''sphere'' \<rparr>"

definition demo_settings :: settings where
  "demo_settings =
     \<lparr> isPrivate = False, requireInvite = False, voiceChatEnabled = True,
       handTrackingEnabled = True, physicsEnabled = True \<rparr>"

text \<open>Session S1 of capacity 2, created at time 0 by alice, who is its only member.\<close>

definition demo_session :: session where
  "demo_session =
     \<lparr> sessionId = ''S1'', name = ''Lobby'', description = None, host = ''u1'',
       environment = ''default'', maxUsers = 2, currentUsers = [demo_member ''u1'' 0],
       sharedObjectDocs = [], settings = demo_settings, inviteCode = None, invitedUsers = [],
       bannedUsers = [], isActive = True, endedAt = None, duration = None, createdAt = 0 \<rparr>"

text \<open>S1 with invites required, bob invited and mallory banned.\<close>

definition invite_session :: session where
  "invite_session =
     demo_session\<lparr> settings := demo_settings\<lparr>requireInvite := True\<rparr>,
                   inviteCode := Some ''ABC123'', invitedUsers := [''u2''],
                   bannedUsers := [\<lparr> banned_user = ''u4'', bannedAt = 0, reason = None \<rparr>] \<rparr>"

text \<open>Session S0, ended at time 5000 when its last member left.\<close>

definition ended_session :: session where
  "ended_session =
     demo_session\<lparr> sessionId := ''S0'', currentUsers := [], isActive := False,
                   endedAt := Some 5000, duration := Some 5 \<rparr>"

definition demo_users :: "user_doc list" where
  "demo_users =
     [\<lparr> user_id = ''u1'', currentVRSession = Some ''S1'', sessionsJoined = 2, messagesSent = 0 \<rparr>,
      \<lparr> user_id = ''u2'', currentVRSession = None, sessionsJoined = 0, messagesSent = 0 \<rparr>,
      \<lparr> user_id = ''u3'', currentVRSession = None, sessionsJoined = 0, messagesSent = 0 \<rparr>]"

definition demo_db :: db where
  "demo_db = \<lparr> db_sessions = [ended_session, demo_session], db_users = demo_users,
               db_messages = [] \<rparr>"

definition no_join_req :: join_req where
  "no_join_req = \<lparr> jr_inviteCode = None, jr_position = JUndefined, jr_avatar = None \<rparr>"

definition no_update :: update_req where
  "no_update = \<lparr> upd_name = None, upd_description = None, upd_maxUsers = None,
                 upd_settings = None \<rparr>"

text \<open>S1 at capacity: alice and bob are its two members.\<close>

definition full_session :: session where
  "full_session = demo_session\<lparr>currentUsers := [demo_member ''u1'' 0, demo_member ''u2'' 10]\<rparr>"

definition full_db :: db where
  "full_db = \<lparr> db_sessions = [full_session], db_users = demo_users, db_messages = [] \<rparr>"

text \<open>S1 with one free place and mallory banned.\<close>

definition banned_session :: session where
  "banned_session =
     demo_session\<lparr>bannedUsers := [\<lparr> banned_user = ''u4'', bannedAt = 0, reason = None \<rparr>]\<rparr>"

definition banned_db :: db where
  "banned_db = \<lparr> db_sessions = [banned_session], db_users = demo_users, db_messages = [] \<rparr>"

text \<open>
  Three stored chat messages: one visible in the global room, one soft-deleted in the
  global room, one soft-deleted in the room \<open>lab\<close>.
\<close>

definition msg1 :: chat_message where
  "msg1 = \<lparr> msg_id = ''m1'', msg_user = ''u1'', msg_username = ''alice'', message = ''hello'',
            room = ''global'', messageType = ''text'', metadata = JObj [], editedAt = None,
            deletedAt = None, msg_createdAt = 0, msg_updatedAt = 0 \<rparr>"

definition msg2 :: chat_message where
  "msg2 = \<lparr> msg_id = ''m2'', msg_user = ''u2'', msg_username = ''bob'', message = ''oops'',
            room = ''global'', messageType = ''text'', metadata = JObj [], editedAt = None,
            deletedAt = Some 5000, msg_createdAt = 1000, msg_updatedAt = 5001 \<rparr>"

definition msg3 :: chat_message where
  "msg3 = \<lparr> msg_id = ''m3'', msg_user = ''u2'', msg_username = ''bob'', message = ''secret'',
            room = ''lab'', messageType = ''text'', metadata = JObj [], editedAt = None,
            deletedAt = Some 6000, msg_createdAt = 2000, msg_updatedAt = 6001 \<rparr>"

definition chat_db :: db where
  "chat_db = \<lparr> db_sessions = [], db_users = demo_users, db_messages = [msg1, msg2, msg3] \<rparr>"

text \<open>
  Two sockets, alice's and bob's, and relay states reached from the empty relay by the
  histories given.
\<close>

definition sockA :: socket where
  "sockA = \<lparr> sock_id = ''sa'', userId = ''u1'', sock_username = ''alice'' \<rparr>"

definition sockB :: socket where
  "sockB = \<lparr> sock_id = ''sb'', userId = ''u2'', sock_username = ''bob'' \<rparr>"

definition server0 :: server where
  "server0 = \<lparr> relay_state = initial_relay, store = chat_db \<rparr>"

definition box_data :: obj where
  "box_data = [(''type'', JStr ''box''), (''position'', vec3 0 0 0)]"

definition relay_two :: relay where
  "relay_two = relay_state (dispatch_all
     [(sockA, Connection 0), (sockB, Connection 1), (sockA, JoinVrSession ''R1'' 2),
      (sockB, JoinVrSession ''R1'' 3), (sockA, CreateSharedObject (Some ''box1'') box_data ''g1'' 4)]
     server0)"

definition room_two :: vr_room where
  "room_two =
     \<lparr> room_id = ''R1'', users = [''u1'', ''u2''], room_createdAt = 2,
       sharedObjects = [(''box1'', build_shared_object ''box1'' box_data ''u1'' 4)] \<rparr>"

definition box_updates :: obj where
  "box_updates = [(''position'', vec3 1 2 3), (''color'', JStr ''red'')]"

definition relay_pair :: relay where
  "relay_pair = relay_state (dispatch_all
     [(sockA, Connection 0), (sockB, Connection 1), (sockA, JoinVrSession ''R1'' 2),
      (sockB, JoinVrSession ''R1'' 3)] server0)"

definition room_pair :: vr_room where
  "room_pair = \<lparr> room_id = ''R1'', users = [''u1'', ''u2''], room_createdAt = 2, sharedObjects = [] \<rparr>"

definition ball_data :: obj where
  "ball_data = [(''type'', JStr ''sphere''), (''scale'', vec3 2 2 2)]"

definition old_msg :: relay_msg where
  "old_msg = \<lparr> rm_id = ''c0'', rm_userId = ''u2'', rm_username = ''bob'', rm_message = JStr ''old'',
               rm_timestamp = 5, rm_room = ''global'' \<rparr>"

definition server_full :: server where
  "server_full = \<lparr> relay_state = relay_pair\<lparr>chatRooms := [(''global'', replicate 100 old_msg)]\<rparr>,
                   store = chat_db \<rparr>"

definition chat_events :: "(socket \<times> relay_event) list" where
  "chat_events =
     [(sockA, Connection 0), (sockA, SendChatMessage (JStr ''a'') None ''c1'' 1),
      (sockA, SendChatMessage (JStr ''b'') (Some ''lab'') ''c2'' 2),
      (sockB, SendChatMessage (JStr ''x'') None ''c3'' 3),
      (sockA, SendChatMessage (JStr ''c'') (Some '''') ''c4'' 4)]"

definition switch_events :: "(socket \<times> relay_event) list" where
  "switch_events =
     [(sockA, Connection 0), (sockA, JoinVrSession ''A'' 1), (sockA, JoinVrSession ''B'' 2)]"

section \<open>Join eligibility\<close>

text \<open>
  C1. \<^verbatim>\<open>canUserJoin(userId)\<close> is true exactly when the user is not on the banned
  list, the member count is strictly below \<^verbatim>\<open>maxUsers\<close>, and the session does not
  require an invite or the user is on the invited list.
\<close>

theorem canUserJoin_iff:
  "canUserJoin s u \<longleftrightarrow>
     u \<notin> banned_user ` set (bannedUsers s)
     \<and> int (length (currentUsers s)) < maxUsers s
     \<and> (\<not> requireInvite (settings s) \<or> u \<in> set (invitedUsers s))"
  by (auto simp: canUserJoin_def list_ex_iff)

theorem canUserJoin_iff_witness:
  "canUserJoin invite_session ''u2'' \<and> \<not> canUserJoin invite_session ''u3''
   \<and> \<not> canUserJoin invite_session ''u4'' \<and> canUserJoin demo_session ''u3''"
  using canUserJoin_iff [of invite_session "''u2''"] canUserJoin_iff [of invite_session "''u3''"]
    canUserJoin_iff [of invite_session "''u4''"] canUserJoin_iff [of demo_session "''u3''"]
  by (simp add: invite_session_def demo_session_def demo_settings_def demo_member_def)

section \<open>Documents found and written back\<close>

lemma length_modify_first: "length (modify_first P f xs) = length xs"
  by (induction xs) auto

lemma modify_first_nth_other:
  "i < length xs \<Longrightarrow> \<not> P (xs ! i) \<Longrightarrow> modify_first P f xs ! i = xs ! i"
  by (induction xs arbitrary: i) (auto simp: nth_Cons split: nat.splits)

lemma modify_first_found:
  "find P xs = Some x \<Longrightarrow>
     \<exists>i < length xs. xs ! i = x \<and> P x \<and> (\<forall>j < i. \<not> P (xs ! j)) \<and> modify_first P f xs = xs[i := f x]"
proof (induction xs)
  case Nil
  then show ?case by simp
next
  case (Cons a xs)
  show ?case
  proof (cases "P a")
    case True
    with Cons.prems have "a = x" by simp
    with True show ?thesis by (intro exI [of _ 0]) simp
  next
    case False
    with Cons.prems have "find P xs = Some x" by simp
    from Cons.IH [OF this] obtain i where i: "i < length xs" "xs ! i = x" "P x"
      "\<forall>j < i. \<not> P (xs ! j)" "modify_first P f xs = xs[i := f x]" by blast
    have "\<forall>j < Suc i. \<not> P ((a # xs) ! j)"
      using False i(4) by (auto simp: nth_Cons split: nat.splits)
    with i False show ?thesis by (intro exI [of _ "Suc i"]) simp
  qed
qed

lemma find_unique_inactive:
  "distinct (map sessionId docs) \<Longrightarrow> s \<in> set docs \<Longrightarrow> sessionId s = sid \<Longrightarrow> \<not> isActive s
   \<Longrightarrow> findActive sid docs = None"
  unfolding findActive_def find_None_iff
  by (metis distinct_map inj_onD)

lemma find_host_unique_inactive:
  "distinct (map sessionId docs) \<Longrightarrow> s \<in> set docs \<Longrightarrow> sessionId s = sid \<Longrightarrow> \<not> isActive s
   \<Longrightarrow> findActiveHost sid h docs = None"
  unfolding findActiveHost_def find_None_iff
  by (metis distinct_map inj_onD)

section \<open>An ended session is never written again\<close>

lemma sessions_updateUser: "db_sessions (updateUser u f d) = db_sessions d"
  by (simp add: updateUser_def)

lemma sessions_updateManyUsers: "db_sessions (updateManyUsers us f d) = db_sessions d"
  by (simp add: updateManyUsers_def)

lemma sessions_saveActive:
  "db_sessions (saveActive sid s d) =
     modify_first (\<lambda>x. sessionId x = sid \<and> isActive x) (\<lambda>_. s) (db_sessions d)"
  by (simp add: saveActive_def)

lemma sessions_saveActiveHost:
  "db_sessions (saveActiveHost sid h s d) =
     modify_first (\<lambda>x. sessionId x = sid \<and> isActive x \<and> host x = h) (\<lambda>_. s) (db_sessions d)"
  by (simp add: saveActiveHost_def)

lemmas sessions_simps =
  sessions_updateUser sessions_updateManyUsers sessions_saveActive sessions_saveActiveHost
  length_modify_first

lemma inactive_fixed_create:
  assumes "i < length (db_sessions d)"
  shows "i < length (db_sessions (snd (create_session ru r uuid code now d)))
         \<and> db_sessions (snd (create_session ru r uuid code now d)) ! i = db_sessions d ! i"
  using assms by (simp add: create_session_def Let_def sessions_simps nth_append)

lemma inactive_fixed_get:
  "db_sessions (snd (get_session ru sid d)) = db_sessions d"
  by (simp add: get_session_def Let_def split: option.splits)

lemma inactive_fixed_join:
  assumes "i < length (db_sessions d)" "\<not> isActive (db_sessions d ! i)"
  shows "i < length (db_sessions (snd (join_session ru sid r r1 r2 now d)))
         \<and> db_sessions (snd (join_session ru sid r r1 r2 now d)) ! i = db_sessions d ! i"
  using assms
  by (simp add: join_session_def Let_def sessions_simps modify_first_nth_other split: option.splits)

lemma inactive_fixed_leave:
  assumes "i < length (db_sessions d)" "\<not> isActive (db_sessions d ! i)"
  shows "i < length (db_sessions (snd (leave_session ru sid now d)))
         \<and> db_sessions (snd (leave_session ru sid now d)) ! i = db_sessions d ! i"
  using assms
  by (simp add: leave_session_def Let_def sessions_simps modify_first_nth_other split: option.splits)

lemma inactive_fixed_update:
  assumes "i < length (db_sessions d)" "\<not> isActive (db_sessions d ! i)"
  shows "i < length (db_sessions (snd (update_session ru sid r d)))
         \<and> db_sessions (snd (update_session ru sid r d)) ! i = db_sessions d ! i"
  using assms
  by (simp add: update_session_def Let_def sessions_simps modify_first_nth_other split: option.splits)

lemma inactive_fixed_end:
  assumes "i < length (db_sessions d)" "\<not> isActive (db_sessions d ! i)"
  shows "i < length (db_sessions (snd (end_session ru sid now d)))
         \<and> db_sessions (snd (end_session ru sid now d)) ! i = db_sessions d ! i"
  using assms
  by (simp add: end_session_def Let_def sessions_simps modify_first_nth_other split: option.splits)

lemma inactive_fixed_regenerate:
  assumes "i < length (db_sessions d)" "\<not> isActive (db_sessions d ! i)"
  shows "i < length (db_sessions (snd (regenerate_invite_code ru sid code d)))
         \<and> db_sessions (snd (regenerate_invite_code ru sid code d)) ! i = db_sessions d ! i"
  using assms
  by (simp add: regenerate_invite_code_def generateInviteCode_def Let_def sessions_simps
      modify_first_nth_other split: option.splits)

lemma inactive_fixed_op:
  assumes "i < length (db_sessions d)" "\<not> isActive (db_sessions d ! i)"
  shows "i < length (db_sessions (snd (run_op op now d)))
         \<and> db_sessions (snd (run_op op now d)) ! i = db_sessions d ! i"
proof (cases op)
  case (Create ru r uuid code)
  then show ?thesis using inactive_fixed_create [OF assms(1)] by simp
next
  case (Get ru sid)
  then show ?thesis using assms(1) by (simp add: inactive_fixed_get)
next
  case (Join ru sid r r1 r2)
  then show ?thesis using inactive_fixed_join [OF assms] by simp
next
  case (Leave ru sid)
  then show ?thesis using inactive_fixed_leave [OF assms] by simp
next
  case (Update ru sid r)
  then show ?thesis using inactive_fixed_update [OF assms] by simp
next
  case (End ru sid)
  then show ?thesis using inactive_fixed_end [OF assms] by simp
next
  case (Regenerate ru sid code)
  then show ?thesis using inactive_fixed_regenerate [OF assms] by simp
qed

lemma inactive_fixed_ops:
  "i < length (db_sessions d) \<Longrightarrow> \<not> isActive (db_sessions d ! i) \<Longrightarrow>
   i < length (db_sessions (run_ops ops d))
   \<and> db_sessions (run_ops ops d) ! i = db_sessions d ! i"
proof (induction ops arbitrary: d)
  case Nil
  then show ?case by simp
next
  case (Cons a ops)
  obtain op now where a: "a = (op, now)" by (cases a)
  from inactive_fixed_op [OF Cons.prems, of op now]
  have 1: "i < length (db_sessions (snd (run_op op now d)))"
    and 2: "db_sessions (snd (run_op op now d)) ! i = db_sessions d ! i" by simp_all
  from Cons.prems(2) 2 have 3: "\<not> isActive (db_sessions (snd (run_op op now d)) ! i)" by simp
  from Cons.IH [OF 1 3] 2 a show ?case by simp
qed

text \<open>The chat routes write messages and user counters, never a session.\<close>

lemma chat_routes_keep_sessions:
  "db_sessions (snd (send_message ru r oid now d)) = db_sessions d"
  "db_sessions (snd (edit_message ru mid msg now saved d)) = db_sessions d"
  "db_sessions (snd (delete_message ru mid now saved d)) = db_sessions d"
  "db_sessions (snd (get_history rm page limit d)) = db_sessions d"
  "db_sessions (snd (get_rooms d)) = db_sessions d"
  by (simp_all add: send_message_def edit_message_def delete_message_def get_history_def
      get_rooms_def saveOwnMessage_def updateUser_def Let_def split: option.splits)

lemmas demo_defs = demo_db_def ended_session_def demo_session_def demo_users_def
  demo_settings_def demo_member_def alice_def bob_def carol_def mallory_def no_join_req_def
  no_update_def vec3_def

text \<open>
  C2, as amended. A leave that empties the member list of an active session writes that
  session back with no members, \<open>isActive\<close> false, \<open>endedAt\<close> the time of the request and
  \<open>duration\<close> the whole seconds between creation and end, that is
  \<open>(endedAt - createdAt) div 1000\<close> on millisecond times; no other document changes.
  A session document that is not active is left as it is by every history of requests
  to the session store, so the flag falls once and \<open>endedAt\<close> and \<open>duration\<close> stay as
  that request set them.
\<close>

theorem leave_deactivates_once:
  "(findActive sid (db_sessions d) = Some s
      \<and> filter (\<lambda>m. user m \<noteq> ru_id ru) (currentUsers s) = []
    \<longrightarrow> (\<exists>i < length (db_sessions d). db_sessions d ! i = s
          \<and> db_sessions (snd (leave_session ru sid now d)) =
              (db_sessions d)[i := s\<lparr>currentUsers := [], isActive := False, endedAt := Some now,
                                     duration := Some ((now - createdAt s) div 1000)\<rparr>]))
   \<and> (j < length (db_sessions d) \<and> \<not> isActive (db_sessions d ! j)
      \<longrightarrow> j < length (db_sessions (run_ops ops d))
          \<and> db_sessions (run_ops ops d) ! j = db_sessions d ! j)"
proof (intro conjI impI)
  assume a: "findActive sid (db_sessions d) = Some s
      \<and> filter (\<lambda>m. user m \<noteq> ru_id ru) (currentUsers s) = []"
  let ?s' = "s\<lparr>currentUsers := [], isActive := False, endedAt := Some now,
                duration := Some ((now - createdAt s) div 1000)\<rparr>"
  from a have f: "find (\<lambda>x. sessionId x = sid \<and> isActive x) (db_sessions d) = Some s"
    by (simp add: findActive_def)
  from modify_first_found [OF f, of "\<lambda>_. ?s'"] obtain i where
    i: "i < length (db_sessions d)" "db_sessions d ! i = s"
      "modify_first (\<lambda>x. sessionId x = sid \<and> isActive x) (\<lambda>_. ?s') (db_sessions d)
         = (db_sessions d)[i := ?s']" by blast
  have "db_sessions (snd (leave_session ru sid now d)) = (db_sessions d)[i := ?s']"
    using a i(3) by (simp add: leave_session_def Let_def sessions_simps)
  with i(1,2) show "\<exists>i < length (db_sessions d). db_sessions d ! i = s
          \<and> db_sessions (snd (leave_session ru sid now d)) = (db_sessions d)[i := ?s']"
    by blast
next
  assume "j < length (db_sessions d) \<and> \<not> isActive (db_sessions d ! j)"
  then show "j < length (db_sessions (run_ops ops d))"
    using inactive_fixed_ops by blast
next
  assume "j < length (db_sessions d) \<and> \<not> isActive (db_sessions d ! j)"
  then show "db_sessions (run_ops ops d) ! j = db_sessions d ! j"
    using inactive_fixed_ops by blast
qed

theorem leave_deactivates_once_witness:
  "findActive ''S1'' (db_sessions demo_db) = Some demo_session
   \<and> filter (\<lambda>m. user m \<noteq> ru_id alice) (currentUsers demo_session) = []
   \<and> db_sessions (snd (leave_session alice ''S1'' 1500 demo_db)) =
       [ended_session,
        demo_session\<lparr>currentUsers := [], isActive := False, endedAt := Some 1500,
                     duration := Some 1\<rparr>]
   \<and> \<not> isActive (db_sessions demo_db ! 0)
   \<and> db_sessions (run_ops [(Join bob ''S0'' no_join_req 0 0, 6000), (Leave alice ''S0'', 7000),
          (End alice ''S0'', 8000), (Leave alice ''S1'', 9000)] demo_db) ! 0 = ended_session"
proof -
  have h1: "findActive ''S1'' (db_sessions demo_db) = Some demo_session
      \<and> filter (\<lambda>m. user m \<noteq> ru_id alice) (currentUsers demo_session) = []"
    by (simp add: findActive_def demo_defs)
  have h2: "0 < length (db_sessions demo_db) \<and> \<not> isActive (db_sessions demo_db ! 0)"
    by (simp add: demo_defs)
  note inst = leave_deactivates_once [of "''S1''" demo_db demo_session alice 1500 0
        "[(Join bob ''S0'' no_join_req 0 0, 6000), (Leave alice ''S0'', 7000),
          (End alice ''S0'', 8000), (Leave alice ''S1'', 9000)]"]
  from inst h1 obtain i where i: "i < length (db_sessions demo_db)"
    "db_sessions demo_db ! i = demo_session"
    "db_sessions (snd (leave_session alice ''S1'' 1500 demo_db)) =
       (db_sessions demo_db)[i := demo_session\<lparr>currentUsers := [], isActive := False,
          endedAt := Some 1500, duration := Some ((1500 - createdAt demo_session) div 1000)\<rparr>]"
    by blast
  from i(1,2) have "i = 1"
    by (cases i) (simp_all add: demo_db_def ended_session_def demo_session_def)
  with i(3) have c1: "db_sessions (snd (leave_session alice ''S1'' 1500 demo_db)) =
       [ended_session,
        demo_session\<lparr>currentUsers := [], isActive := False, endedAt := Some 1500,
                     duration := Some 1\<rparr>]"
    by (simp add: demo_db_def demo_session_def)
  from inst h2 have c2: "db_sessions (run_ops [(Join bob ''S0'' no_join_req 0 0, 6000),
          (Leave alice ''S0'', 7000), (End alice ''S0'', 8000), (Leave alice ''S1'', 9000)]
          demo_db) ! 0 = ended_session"
    by (simp add: demo_db_def)
  from h1 h2 c1 c2 show ?thesis by simp
qed

text \<open>
  Against C2 as stated: alice, the only member of S1 (created at time 0), leaves at time
  1500. The session ends with \<open>duration = 1\<close>, while \<open>endedAt - createdAt = 1500\<close>.
\<close>

theorem leave_duration_counterexample:
  "(case db_sessions (snd (leave_session alice ''S1'' 1500 demo_db)) of
      [s0, s1] \<Rightarrow> \<not> isActive s1 \<and> createdAt s1 = 0 \<and> endedAt s1 = Some 1500
                  \<and> duration s1 = Some 1 \<and> duration s1 \<noteq> Some (1500 - createdAt s1)
    | _ \<Rightarrow> False)"
  by (simp add: leave_session_def findActive_def saveActive_def updateUser_def Let_def demo_defs)


section \<open>Requests that address an ended session\<close>

text \<open>
  C10, as amended. For a session that is not active, fetch, join, leave, end and
  regenerate-invite-code answer 404, and so does an update whose body passes its
  validation; an update whose body fails validation is answered 400 before the session
  is looked up. In every case the stores are left as they were.
\<close>

theorem inactive_session_not_found:
  assumes "distinct (map sessionId (db_sessions d))"
    and "s \<in> set (db_sessions d)" and "sessionId s = sid" and "\<not> isActive s"
  shows "get_session caller sid d = (Response 404 (ErrorBody ''VR session not found''), d)
    \<and> join_session ru sid jr r1 r2 now d = (Response 404 (ErrorBody ''VR session not found''), d)
    \<and> leave_session ru sid now d = (Response 404 (ErrorBody ''VR session not found''), d)
    \<and> update_session ru sid ur d =
        (if validate_update ur = []
         then Response 404 (ErrorBody ''VR session not found or unauthorized'')
         else Response 400 (ValidationBody (validate_update ur)), d)
    \<and> end_session ru sid now d =
        (Response 404 (ErrorBody ''VR session not found or unauthorized''), d)
    \<and> regenerate_invite_code ru sid code d =
        (Response 404 (ErrorBody ''VR session not found or unauthorized''), d)"
proof -
  have a: "findActive sid (db_sessions d) = None"
    using assms by (rule find_unique_inactive)
  have h: "findActiveHost sid (ru_id ru) (db_sessions d) = None"
    using assms by (rule find_host_unique_inactive)
  show ?thesis
    using a h
    by (simp add: get_session_def join_session_def leave_session_def update_session_def
        end_session_def regenerate_invite_code_def Let_def)
qed

theorem inactive_session_not_found_witness:
  "distinct (map sessionId (db_sessions demo_db)) \<and> ended_session \<in> set (db_sessions demo_db)
   \<and> \<not> isActive ended_session
   \<and> get_session (Some alice) ''S0'' demo_db =
       (Response 404 (ErrorBody ''VR session not found''), demo_db)
   \<and> join_session bob ''S0'' no_join_req 0 0 6000 demo_db =
       (Response 404 (ErrorBody ''VR session not found''), demo_db)
   \<and> leave_session alice ''S0'' 6000 demo_db =
       (Response 404 (ErrorBody ''VR session not found''), demo_db)
   \<and> update_session alice ''S0'' (no_update\<lparr>upd_name := Some ''Lounge''\<rparr>) demo_db =
       (Response 404 (ErrorBody ''VR session not found or unauthorized''), demo_db)
   \<and> update_session alice ''S0'' (no_update\<lparr>upd_maxUsers := Some 1\<rparr>) demo_db =
       (Response 400 (ValidationBody [''Max users must be between 2 and 100'']), demo_db)
   \<and> end_session alice ''S0'' 6000 demo_db =
       (Response 404 (ErrorBody ''VR session not found or unauthorized''), demo_db)
   \<and> regenerate_invite_code alice ''S0'' ''XYZ789'' demo_db =
       (Response 404 (ErrorBody ''VR session not found or unauthorized''), demo_db)"
proof -
  have h: "distinct (map sessionId (db_sessions demo_db))"
    "ended_session \<in> set (db_sessions demo_db)" "sessionId ended_session = ''S0''"
    "\<not> isActive ended_session"
    by (simp_all add: demo_db_def ended_session_def demo_session_def)
  have v1: "validate_update (no_update\<lparr>upd_name := Some ''Lounge''\<rparr>) = []"
    by (simp add: validate_update_def no_update_def isLength_def)
  have v2: "validate_update (no_update\<lparr>upd_maxUsers := Some 1\<rparr>) =
      [''Max users must be between 2 and 100'']"
    by (simp add: validate_update_def no_update_def isLength_def)
  show ?thesis
    using h v1 v2
      inactive_session_not_found [OF h, of "Some alice" bob no_join_req 0 0 6000
        "no_update\<lparr>upd_name := Some ''Lounge''\<rparr>" "''XYZ789''"]
      inactive_session_not_found [OF h, of "Some alice" alice no_join_req 0 0 6000
        "no_update\<lparr>upd_name := Some ''Lounge''\<rparr>" "''XYZ789''"]
      inactive_session_not_found [OF h, of "Some alice" alice no_join_req 0 0 6000
        "no_update\<lparr>upd_maxUsers := Some 1\<rparr>" "''XYZ789''"]
    by simp
qed

text \<open>
  Against C10 as stated: an update of the ended session S0 with a two-letter name is
  answered 400 with the validation message, not 404.
\<close>

theorem inactive_update_counterexample:
  "\<not> isActive ended_session \<and> map sessionId (db_sessions demo_db) = [''S0'', ''S1'']
   \<and> db_sessions demo_db ! 0 = ended_session
   \<and> update_session alice ''S0'' (no_update\<lparr>upd_name := Some ''ab''\<rparr>) demo_db =
       (Response 400 (ValidationBody [''Session name must be between 3 and 100 characters'']),
        demo_db)"
  by (simp add: update_session_def validate_update_def isLength_def Let_def no_update_def
      demo_db_def ended_session_def demo_session_def)


section \<open>Joining a full session\<close>

text \<open>
  C6, as amended. A join of an active session whose member count equals \<open>maxUsers\<close>
  is refused with status 403 and the message \<open>Cannot join this session\<close>, and the stores
  are left as they were. The same response answers every refusal by \<open>canUserJoin\<close>
  (banned, full, not invited); a session that is not active is answered 404.
\<close>

theorem full_session_join_refused:
  "(findActive sid (db_sessions d) = Some s \<and> int (length (currentUsers s)) = maxUsers s
    \<longrightarrow> join_session ru sid jr r1 r2 now d =
          (Response 403 (ErrorBody ''Cannot join this session''), d))
   \<and> (findActive sid (db_sessions d) = Some s \<and> \<not> canUserJoin s (ru_id ru)
      \<longrightarrow> join_session ru sid jr r1 r2 now d =
            (Response 403 (ErrorBody ''Cannot join this session''), d))
   \<and> (findActive sid (db_sessions d) = None
      \<longrightarrow> join_session ru sid jr r1 r2 now d =
            (Response 404 (ErrorBody ''VR session not found''), d))"
  by (auto simp: join_session_def canUserJoin_def)

theorem full_session_join_refused_witness:
  "findActive ''S1'' (db_sessions full_db) = Some (full_session)
   \<and> int (length (currentUsers (full_session))) = maxUsers (full_session)
   \<and> join_session carol ''S1'' no_join_req 0 0 20 full_db =
       (Response 403 (ErrorBody ''Cannot join this session''), full_db)
   \<and> findActive ''S1'' (db_sessions banned_db) = Some (banned_session)
   \<and> \<not> canUserJoin (banned_session) (ru_id mallory)
   \<and> join_session mallory ''S1'' no_join_req 0 0 20 banned_db =
       (Response 403 (ErrorBody ''Cannot join this session''), banned_db)
   \<and> findActive ''S0'' (db_sessions demo_db) = None
   \<and> join_session carol ''S0'' no_join_req 0 0 20 demo_db =
       (Response 404 (ErrorBody ''VR session not found''), demo_db)"
proof -
  have h1: "findActive ''S1'' (db_sessions full_db) = Some (full_session)
      \<and> int (length (currentUsers (full_session))) = maxUsers (full_session)"
    by (simp add: findActive_def full_db_def full_session_def demo_session_def)
  have h2: "findActive ''S1'' (db_sessions banned_db) = Some (banned_session)
      \<and> \<not> canUserJoin (banned_session) (ru_id mallory)"
    by (simp add: findActive_def canUserJoin_def banned_db_def banned_session_def
        demo_session_def mallory_def)
  have h3: "findActive ''S0'' (db_sessions demo_db) = None"
    by (simp add: findActive_def demo_db_def ended_session_def demo_session_def)
  show ?thesis
    using h1 h2 h3
      full_session_join_refused [of "''S1''" full_db "full_session" carol
        no_join_req 0 0 20]
      full_session_join_refused [of "''S1''" banned_db "banned_session" mallory
        no_join_req 0 0 20]
      full_session_join_refused [of "''S0''" demo_db demo_session carol no_join_req 0 0 20]
    by simp
qed

text \<open>
  Against C6 as stated: carol, refused because S1 is full, and mallory, refused because
  she is banned from an S1 with a free place, receive the same response.
\<close>

theorem full_session_error_counterexample:
  "fst (join_session carol ''S1'' no_join_req 0 0 20 full_db) =
     Response 403 (ErrorBody ''Cannot join this session'')
   \<and> fst (join_session mallory ''S1'' no_join_req 0 0 20 banned_db) =
     Response 403 (ErrorBody ''Cannot join this session'')"
  by (simp add: join_session_def findActive_def canUserJoin_def full_db_def banned_db_def
      full_session_def banned_session_def demo_session_def carol_def mallory_def)


section \<open>Chat store: queries and writes\<close>

lemmas chat_defs = chat_db_def msg1_def msg2_def msg3_def demo_users_def alice_def bob_def

lemma set_history_page: "set (history_page r page limit ms) \<subseteq> set (live_in_room r ms)"
proof -
  have "set (drop n (sort_key f xs)) \<subseteq> set xs" for n and f :: "chat_message \<Rightarrow> int" and xs
    using set_drop_subset [of n "sort_key f xs"] by simp
  moreover have "set (take k (drop n (sort_key f xs))) \<subseteq> set xs"
    for k n and f :: "chat_message \<Rightarrow> int" and xs
    using set_take_subset [of k "drop n (sort_key f xs)"] set_drop_subset [of n "sort_key f xs"]
    by auto
  ultimately show ?thesis by (simp add: history_page_def Let_def)
qed

lemma fold_max_in: "fold max xs (x :: int) \<in> set (x # xs)"
proof (induction xs arbitrary: x)
  case Nil
  then show ?case by simp
next
  case (Cons y ys)
  from Cons.IH [of "max y x"]
  have "fold max ys (max y x) = max y x \<or> fold max ys (max y x) \<in> set ys" by simp
  moreover have "max y x = x \<or> max y x = y" by (simp add: max_def)
  ultimately show ?case by auto
qed

lemma room_group_sound:
  assumes "g \<in> set (room_group r matched)"
  shows "rs_room g = r \<and> messageCount g = length (filter (\<lambda>m. room m = r) matched)
    \<and> (\<exists>m \<in> set matched. room m = r \<and> message m = lastMessageText g
          \<and> msg_username m = lastUsername g)
    \<and> (\<exists>m \<in> set matched. room m = r \<and> msg_createdAt m = lastMessage g)"
proof (cases "filter (\<lambda>m. room m = r) matched")
  case Nil
  with assms show ?thesis by (simp add: room_group_def)
next
  case (Cons m ms)
  with assms have g: "g = \<lparr> rs_room = r,
      lastMessage = fold max (map msg_createdAt ms) (msg_createdAt m),
      messageCount = length (m # ms), lastMessageText = message (last (m # ms)),
      lastUsername = msg_username (last (m # ms)) \<rparr>"
    by (simp add: room_group_def)
  have sub: "set (m # ms) \<subseteq> {x \<in> set matched. room x = r}"
    using Cons [symmetric] by auto
  have "last (m # ms) \<in> set (m # ms)" by (rule last_in_set) simp
  with sub have l: "last (m # ms) \<in> set matched" "room (last (m # ms)) = r" by auto
  have "fold max (map msg_createdAt ms) (msg_createdAt m) \<in> msg_createdAt ` set (m # ms)"
    using fold_max_in [of "map msg_createdAt ms" "msg_createdAt m"] by simp
  then obtain x where x: "x \<in> set (m # ms)"
    "msg_createdAt x = fold max (map msg_createdAt ms) (msg_createdAt m)"
    by force
  with sub have x': "x \<in> set matched" "room x = r" by auto
  show ?thesis using g Cons l x(2) x' by auto
qed

lemma rooms_aggregate_sound:
  assumes "g \<in> set (rooms_aggregate ms)"
  shows "messageCount g = length (live_in_room (rs_room g) ms)
    \<and> (\<exists>m \<in> set ms. deletedAt m = None \<and> room m = rs_room g \<and> message m = lastMessageText g
          \<and> msg_username m = lastUsername g)
    \<and> (\<exists>m \<in> set ms. deletedAt m = None \<and> room m = rs_room g \<and> msg_createdAt m = lastMessage g)"
proof -
  let ?matched = "filter (\<lambda>m. deletedAt m = None) ms"
  from assms have "g \<in> set (sort_key (\<lambda>g. - lastMessage g)
      (concat (map (\<lambda>r. room_group r ?matched) (remdups (map room ?matched)))))"
    unfolding rooms_aggregate_def Let_def by (rule in_set_takeD)
  then obtain r where "g \<in> set (room_group r ?matched)" by auto
  from room_group_sound [OF this]
  show ?thesis by (auto simp: live_in_room_def conj_commute)
qed

lemma modify_first_filter_drop:
  "find P xs = Some x \<Longrightarrow> Q x \<Longrightarrow> \<not> Q (f x) \<Longrightarrow>
   Suc (length (filter Q (modify_first P f xs))) = length (filter Q xs)"
  by (induction xs) (auto split: if_splits)

lemma trim_hi: "trim '' hi  '' = ''hi''"
  by (simp add: trim_def is_space_def)


section \<open>The edit window\<close>

text \<open>
  C4, as amended. For the caller's own message that is not soft-deleted: an edit more
  than 15 minutes after creation is answered 400 and changes nothing. An edit at most
  15 minutes after creation whose new body has 1 to 1000 characters and is not blank
  is answered 200 and replaces the stored message by itself with \<open>message\<close> set to
  the trimmed body, \<open>editedAt\<close> to the time of the request and \<open>updatedAt\<close> to the
  time of the save, every other field and every other document as before. A body that
  is absent, empty or longer than 1000 characters is answered 400 with the validation
  message, and a blank body of 1 to 1000 characters on a message at most 15 minutes old
  is answered 500; neither changes anything.
\<close>

theorem edit_window:
  "findOwnMessage mid (ru_id ru) (db_messages d) = Some m \<longrightarrow>
     (15 * 60 * 1000 < now - msg_createdAt m
        \<longrightarrow> status (fst (edit_message ru mid newBody now saved d)) = 400
            \<and> snd (edit_message ru mid newBody now saved d) = d)
     \<and> (now - msg_createdAt m \<le> 15 * 60 * 1000 \<and> isLength 1 1000 b \<and> trim b \<noteq> []
        \<longrightarrow> (\<exists>i < length (db_messages d). db_messages d ! i = m
              \<and> edit_message ru mid (Some b) now saved d =
                  (Response 200 (ChatMsgBody ''Message updated successfully''
                     (m\<lparr>message := trim b, editedAt := Some now, msg_updatedAt := saved\<rparr>)),
                   d\<lparr>db_messages :=
                       (db_messages d)[i := m\<lparr>message := trim b, editedAt := Some now,
                                               msg_updatedAt := saved\<rparr>]\<rparr>)))
     \<and> (\<not> isLength 1 1000 (case newBody of None \<Rightarrow> [] | Some x \<Rightarrow> x)
        \<longrightarrow> edit_message ru mid newBody now saved d =
              (Response 400 (ValidationBody [''Message must be between 1 and 1000 characters'']),
               d))
     \<and> (now - msg_createdAt m \<le> 15 * 60 * 1000 \<and> isLength 1 1000 b \<and> trim b = []
        \<longrightarrow> edit_message ru mid (Some b) now saved d =
              (Response 500 (ErrorBody ''Internal server error''), d))"
proof (intro impI conjI)
  assume f: "findOwnMessage mid (ru_id ru) (db_messages d) = Some m"
  assume old: "15 * 60 * 1000 < now - msg_createdAt m"
  then have o: "msg_createdAt m < now - 15 * 60 * 1000" by simp
  with f show "status (fst (edit_message ru mid newBody now saved d)) = 400"
    by (simp add: edit_message_def Let_def)
  from f o show "snd (edit_message ru mid newBody now saved d) = d"
    by (simp add: edit_message_def Let_def)
next
  assume f: "findOwnMessage mid (ru_id ru) (db_messages d) = Some m"
  assume a: "now - msg_createdAt m \<le> 15 * 60 * 1000 \<and> isLength 1 1000 b \<and> trim b \<noteq> []"
  let ?m' = "m\<lparr>message := trim b, editedAt := Some now, msg_updatedAt := saved\<rparr>"
  from f have "find (\<lambda>x. msg_id x = mid \<and> msg_user x = ru_id ru \<and> deletedAt x = None)
      (db_messages d) = Some m" by (simp add: findOwnMessage_def)
  from modify_first_found [OF this, of "\<lambda>_. ?m'"] obtain i where
    i: "i < length (db_messages d)" "db_messages d ! i = m"
      "modify_first (\<lambda>x. msg_id x = mid \<and> msg_user x = ru_id ru \<and> deletedAt x = None)
         (\<lambda>_. ?m') (db_messages d) = (db_messages d)[i := ?m']" by blast
  from a have young: "\<not> msg_createdAt m < now - 15 * 60 * 1000" by simp
  have "edit_message ru mid (Some b) now saved d =
      (Response 200 (ChatMsgBody ''Message updated successfully'' ?m'),
       d\<lparr>db_messages := (db_messages d)[i := ?m']\<rparr>)"
    using f a young i(3) by (simp add: edit_message_def Let_def saveOwnMessage_def)
  with i(1,2) show "\<exists>i < length (db_messages d). db_messages d ! i = m
      \<and> edit_message ru mid (Some b) now saved d =
          (Response 200 (ChatMsgBody ''Message updated successfully'' ?m'),
           d\<lparr>db_messages := (db_messages d)[i := ?m']\<rparr>)" by blast
next
  assume "\<not> isLength 1 1000 (case newBody of None \<Rightarrow> [] | Some x \<Rightarrow> x)"
  then show "edit_message ru mid newBody now saved d =
      (Response 400 (ValidationBody [''Message must be between 1 and 1000 characters'']), d)"
    by (simp add: edit_message_def)
next
  assume f: "findOwnMessage mid (ru_id ru) (db_messages d) = Some m"
  assume a: "now - msg_createdAt m \<le> 15 * 60 * 1000 \<and> isLength 1 1000 b \<and> trim b = []"
  then have young: "\<not> msg_createdAt m < now - 15 * 60 * 1000" by simp
  from f a young show "edit_message ru mid (Some b) now saved d =
      (Response 500 (ErrorBody ''Internal server error''), d)"
    by (simp add: edit_message_def internal_error_def Let_def)
qed

lemma trim_blank: "trim ''   '' = []"
  by (simp add: trim_def is_space_def)

theorem edit_window_witness:
  "findOwnMessage ''m1'' (ru_id alice) (db_messages chat_db) = Some msg1
   \<and> status (fst (edit_message alice ''m1'' (Some ''hi'') 900001 900002 chat_db)) = 400
   \<and> snd (edit_message alice ''m1'' (Some ''hi'') 900001 900002 chat_db) = chat_db
   \<and> isLength 1 1000 '' hi  '' \<and> trim '' hi  '' = ''hi''
   \<and> edit_message alice ''m1'' (Some '' hi  '') 900000 900002 chat_db =
       (Response 200 (ChatMsgBody ''Message updated successfully''
          (msg1\<lparr>message := ''hi'', editedAt := Some 900000, msg_updatedAt := 900002\<rparr>)),
        chat_db\<lparr>db_messages :=
          [msg1\<lparr>message := ''hi'', editedAt := Some 900000, msg_updatedAt := 900002\<rparr>,
           msg2, msg3]\<rparr>)
   \<and> edit_message alice ''m1'' (Some (replicate 1001 CHR ''a'')) 60000 60001 chat_db =
       (Response 400 (ValidationBody [''Message must be between 1 and 1000 characters'']), chat_db)
   \<and> edit_message alice ''m1'' None 60000 60001 chat_db =
       (Response 400 (ValidationBody [''Message must be between 1 and 1000 characters'']), chat_db)
   \<and> isLength 1 1000 ''   '' \<and> trim ''   '' = []
   \<and> edit_message alice ''m1'' (Some ''   '') 60000 60001 chat_db =
       (Response 500 (ErrorBody ''Internal server error''), chat_db)"
proof -
  have h: "findOwnMessage ''m1'' (ru_id alice) (db_messages chat_db) = Some msg1"
    by (simp add: findOwnMessage_def chat_defs)
  have v: "isLength 1 1000 '' hi  ''" "isLength 1 1000 ''   ''"
    "\<not> isLength 1 1000 (replicate 1001 CHR ''a'')" "\<not> isLength 1 1000 []"
    by (simp_all add: isLength_def)
  have c0: "msg_createdAt msg1 = 0" by (simp add: msg1_def)
  from edit_window [of "''m1''" alice chat_db msg1 900001 "Some ''hi''" 900002 "'' hi  ''"] h c0
  have old: "status (fst (edit_message alice ''m1'' (Some ''hi'') 900001 900002 chat_db)) = 400
      \<and> snd (edit_message alice ''m1'' (Some ''hi'') 900001 900002 chat_db) = chat_db"
    by simp
  from edit_window [of "''m1''" alice chat_db msg1 900000 "Some ''hi''" 900002 "'' hi  ''"]
    h c0 v(1) trim_hi
  obtain i where i: "i < length (db_messages chat_db)" "db_messages chat_db ! i = msg1"
    "edit_message alice ''m1'' (Some '' hi  '') 900000 900002 chat_db =
       (Response 200 (ChatMsgBody ''Message updated successfully''
          (msg1\<lparr>message := ''hi'', editedAt := Some 900000, msg_updatedAt := 900002\<rparr>)),
        chat_db\<lparr>db_messages :=
          (db_messages chat_db)[i := msg1\<lparr>message := ''hi'', editedAt := Some 900000,
                                         msg_updatedAt := 900002\<rparr>]\<rparr>)"
    by auto
  from i(1,2) have "i = 0"
    by (cases i rule: nat.exhaust; cases "i - 1")
       (auto simp: chat_db_def msg1_def msg2_def msg3_def nth_Cons split: nat.splits)
  with i(3) have young: "edit_message alice ''m1'' (Some '' hi  '') 900000 900002 chat_db =
       (Response 200 (ChatMsgBody ''Message updated successfully''
          (msg1\<lparr>message := ''hi'', editedAt := Some 900000, msg_updatedAt := 900002\<rparr>)),
        chat_db\<lparr>db_messages :=
          [msg1\<lparr>message := ''hi'', editedAt := Some 900000, msg_updatedAt := 900002\<rparr>,
           msg2, msg3]\<rparr>)"
    by (simp add: chat_db_def)
  from edit_window [of "''m1''" alice chat_db msg1 60000 "Some (replicate 1001 CHR ''a'')" 60001
      "''   ''"] h v(3)
  have long: "edit_message alice ''m1'' (Some (replicate 1001 CHR ''a'')) 60000 60001 chat_db =
       (Response 400 (ValidationBody [''Message must be between 1 and 1000 characters'']), chat_db)"
    by simp
  from edit_window [of "''m1''" alice chat_db msg1 60000 None 60001 "''   ''"] h v(4)
  have absent: "edit_message alice ''m1'' None 60000 60001 chat_db =
       (Response 400 (ValidationBody [''Message must be between 1 and 1000 characters'']), chat_db)"
    by simp
  from edit_window [of "''m1''" alice chat_db msg1 60000 None 60001 "''   ''"] h c0 v(2) trim_blank
  have blank: "edit_message alice ''m1'' (Some ''   '') 60000 60001 chat_db =
       (Response 500 (ErrorBody ''Internal server error''), chat_db)"
    by simp
  from h old v(1,2) trim_hi young long absent trim_blank blank show ?thesis by simp
qed

text \<open>
  Against C4 as stated, alice's own one-minute-old message. An edit with an empty body
  does not succeed: the validation chain answers 400. An edit with the body \<open>hi\<close> does
  succeed, and the stored message differs from the former one in \<open>updatedAt\<close> too, a
  field other than the body and the edit timestamp.
\<close>

theorem edit_body_counterexample:
  "findOwnMessage ''m1'' (ru_id alice) (db_messages chat_db) = Some msg1
   \<and> 60000 - msg_createdAt msg1 < 15 * 60 * 1000
   \<and> edit_message alice ''m1'' (Some '''') 60000 60001 chat_db =
       (Response 400 (ValidationBody [''Message must be between 1 and 1000 characters'']), chat_db)
   \<and> status (fst (edit_message alice ''m1'' (Some ''hi'') 60000 60001 chat_db)) = 200
   \<and> map msg_updatedAt (db_messages chat_db) = [0, 5001, 6001]
   \<and> map msg_updatedAt (db_messages (snd (edit_message alice ''m1'' (Some ''hi'') 60000 60001
        chat_db))) = [60001, 5001, 6001]"
  by (simp add: edit_message_def findOwnMessage_def saveOwnMessage_def isLength_def trim_def
      is_space_def Let_def chat_defs)

section \<open>Soft-deleted messages\<close>

text \<open>
  The total that a history response reports is the number of messages of the room that
  are not soft-deleted.
\<close>

lemma history_total_counts_visible:
  "body (fst (get_history r page limit d)) = HistoryBody msgs pg \<Longrightarrow>
   totalMessages pg = length (live_in_room r (db_messages d))"
  by (auto simp: get_history_def internal_error_def Let_def split: if_splits)

text \<open>
  C5. Every message of a history page is of the room asked for and not soft-deleted.
  Every entry of the room listing counts, and takes its last time, text and user name
  from, messages that are not soft-deleted. A soft delete keeps the document in the
  store: it rewrites the one message found, so the number of stored messages of every
  room is as before, while the number of visible messages of its room falls by one.
\<close>

theorem soft_deleted_hidden:
  "(\<forall>msgs pg. body (fst (get_history r page limit d)) = HistoryBody msgs pg
       \<longrightarrow> (\<forall>m \<in> set msgs. deletedAt m = None \<and> room m = r \<and> m \<in> set (db_messages d)))
   \<and> (\<forall>g \<in> set (rooms_aggregate (db_messages d)).
        messageCount g = length (live_in_room (rs_room g) (db_messages d))
        \<and> (\<exists>m \<in> set (db_messages d). deletedAt m = None \<and> room m = rs_room g
              \<and> message m = lastMessageText g \<and> msg_username m = lastUsername g)
        \<and> (\<exists>m \<in> set (db_messages d). deletedAt m = None \<and> room m = rs_room g
              \<and> msg_createdAt m = lastMessage g))
   \<and> (findOwnMessage mid (ru_id ru) (db_messages d) = Some m0
      \<longrightarrow> fst (delete_message ru mid now saved d) =
            Response 200 (MessageBody ''Message deleted successfully'')
          \<and> (\<exists>i < length (db_messages d). db_messages d ! i = m0
                \<and> db_messages (snd (delete_message ru mid now saved d)) =
                    (db_messages d)[i := m0\<lparr>deletedAt := Some now, msg_updatedAt := saved\<rparr>])
          \<and> length (filter (\<lambda>m. room m = r) (db_messages (snd (delete_message ru mid now saved d)))) =
              length (filter (\<lambda>m. room m = r) (db_messages d))
          \<and> Suc (length (live_in_room (room m0) (db_messages (snd (delete_message ru mid now saved d))))) =
              length (live_in_room (room m0) (db_messages d)))"
proof (intro conjI allI impI ballI)
  fix msgs pg m
  assume b: "body (fst (get_history r page limit d)) = HistoryBody msgs pg" and m: "m \<in> set msgs"
  from b have "msgs = rev (history_page r page limit (db_messages d))"
    by (simp add: get_history_def internal_error_def Let_def split: if_splits)
  with m have "m \<in> set (live_in_room r (db_messages d))"
    using set_history_page [of r page limit "db_messages d"] by auto
  then have "deletedAt m = None \<and> room m = r \<and> m \<in> set (db_messages d)"
    by (simp add: live_in_room_def)
  then show "deletedAt m = None" "room m = r" "m \<in> set (db_messages d)" by simp_all
next
  fix g assume g: "g \<in> set (rooms_aggregate (db_messages d))"
  from rooms_aggregate_sound [OF g]
  show "messageCount g = length (live_in_room (rs_room g) (db_messages d))"
    and "\<exists>m \<in> set (db_messages d). deletedAt m = None \<and> room m = rs_room g
              \<and> message m = lastMessageText g \<and> msg_username m = lastUsername g"
    and "\<exists>m \<in> set (db_messages d). deletedAt m = None \<and> room m = rs_room g
              \<and> msg_createdAt m = lastMessage g"
    by simp_all
next
  assume f: "findOwnMessage mid (ru_id ru) (db_messages d) = Some m0"
  let ?P = "\<lambda>x. msg_id x = mid \<and> msg_user x = ru_id ru \<and> deletedAt x = None"
  let ?f = "\<lambda>_ :: chat_message. m0\<lparr>deletedAt := Some now, msg_updatedAt := saved\<rparr>"
  from f have fnd: "find ?P (db_messages d) = Some m0" by (simp add: findOwnMessage_def)
  have after: "db_messages (snd (delete_message ru mid now saved d)) = modify_first ?P ?f (db_messages d)"
    using f by (simp add: delete_message_def saveOwnMessage_def)
  from f show "fst (delete_message ru mid now saved d) =
      Response 200 (MessageBody ''Message deleted successfully'')"
    by (simp add: delete_message_def)
  from modify_first_found [OF fnd, of ?f] after
  show "\<exists>i < length (db_messages d). db_messages d ! i = m0
      \<and> db_messages (snd (delete_message ru mid now saved d)) =
          (db_messages d)[i := m0\<lparr>deletedAt := Some now, msg_updatedAt := saved\<rparr>]"
    by auto
  from modify_first_found [OF fnd, of ?f] obtain i where
    i: "i < length (db_messages d)" "db_messages d ! i = m0" "?P m0"
      "modify_first ?P ?f (db_messages d) = (db_messages d)[i := m0\<lparr>deletedAt := Some now, msg_updatedAt := saved\<rparr>]"
    by blast
  have "map room (modify_first ?P ?f (db_messages d)) = map room (db_messages d)"
    using i by (simp add: map_update list_update_same_conv)
  then have "map room (db_messages (snd (delete_message ru mid now saved d))) = map room (db_messages d)"
    using after by simp
  then have "filter (\<lambda>x. x = r) (map room (db_messages (snd (delete_message ru mid now saved d)))) =
      filter (\<lambda>x. x = r) (map room (db_messages d))" by simp
  then have "length (map room (filter (\<lambda>m. room m = r) (db_messages (snd (delete_message ru mid now saved d))))) =
      length (map room (filter (\<lambda>m. room m = r) (db_messages d)))"
    by (simp add: filter_map comp_def)
  then show "length (filter (\<lambda>m. room m = r) (db_messages (snd (delete_message ru mid now saved d)))) =
      length (filter (\<lambda>m. room m = r) (db_messages d))" by simp
  have "Suc (length (filter (\<lambda>m. room m = room m0 \<and> deletedAt m = None)
        (modify_first ?P ?f (db_messages d)))) =
      length (filter (\<lambda>m. room m = room m0 \<and> deletedAt m = None) (db_messages d))"
    by (rule modify_first_filter_drop [OF fnd]) (use i(3) in simp_all)
  then show "Suc (length (live_in_room (room m0) (db_messages (snd (delete_message ru mid now saved d))))) =
      length (live_in_room (room m0) (db_messages d))"
    using after by (simp add: live_in_room_def)
qed

theorem soft_deleted_hidden_witness:
  "body (fst (get_history ''global'' 1 50 chat_db)) =
     HistoryBody [msg1] \<lparr> currentPage = 1, totalPages = Some 1, totalMessages = 1, hasMore = False \<rparr>
   \<and> rooms_aggregate (db_messages chat_db) =
       [\<lparr> rs_room = ''global'', lastMessage = 0, messageCount = 1, lastMessageText = ''hello'',
          lastUsername = ''alice'' \<rparr>]
   \<and> findOwnMessage ''m1'' (ru_id alice) (db_messages chat_db) = Some msg1
   \<and> db_messages (snd (delete_message alice ''m1'' 7000 7001 chat_db)) =
       [msg1\<lparr>deletedAt := Some 7000, msg_updatedAt := 7001\<rparr>, msg2, msg3]
   \<and> length (filter (\<lambda>m. room m = ''global'') (db_messages (snd (delete_message alice ''m1'' 7000 7001 chat_db)))) = 2
   \<and> length (live_in_room ''global'' (db_messages (snd (delete_message alice ''m1'' 7000 7001 chat_db)))) = 0
   \<and> length (live_in_room ''global'' (db_messages chat_db)) = 1"
proof -
  have h: "findOwnMessage ''m1'' (ru_id alice) (db_messages chat_db) = Some msg1"
    by (simp add: findOwnMessage_def chat_defs)
  have hist: "body (fst (get_history ''global'' 1 50 chat_db)) =
     HistoryBody [msg1] \<lparr> currentPage = 1, totalPages = Some 1, totalMessages = 1, hasMore = False \<rparr>"
    by (simp add: get_history_def history_page_def live_in_room_def Let_def chat_defs)
  have agg: "rooms_aggregate (db_messages chat_db) =
       [\<lparr> rs_room = ''global'', lastMessage = 0, messageCount = 1, lastMessageText = ''hello'',
          lastUsername = ''alice'' \<rparr>]"
    by (simp add: rooms_aggregate_def room_group_def Let_def chat_defs)
  have del: "db_messages (snd (delete_message alice ''m1'' 7000 7001 chat_db)) =
       [msg1\<lparr>deletedAt := Some 7000, msg_updatedAt := 7001\<rparr>, msg2, msg3]"
    by (simp add: delete_message_def findOwnMessage_def saveOwnMessage_def chat_defs)
  have stored: "length (filter (\<lambda>m. room m = ''global'') (db_messages chat_db)) = 2"
    and live: "length (live_in_room ''global'' (db_messages chat_db)) = 1"
    and rm: "room msg1 = ''global''"
    by (simp_all add: live_in_room_def chat_defs)
  from soft_deleted_hidden [of "''global''" 1 50 chat_db "''m1''" alice msg1 7000 7001] h rm stored live
  have "length (filter (\<lambda>m. room m = ''global'')
          (db_messages (snd (delete_message alice ''m1'' 7000 7001 chat_db)))) = 2
     \<and> length (live_in_room ''global'' (db_messages (snd (delete_message alice ''m1'' 7000 7001 chat_db)))) = 0"
    by simp
  with h hist agg del live show ?thesis by simp
qed

section \<open>Relay: sample states\<close>

lemmas relay_defs = dispatch_def initial_relay_def on_connection_def join_vr_session_def
  create_shared_object_def socket_join_def socket_leave_def set_add_def joined_room_def
  or_str_def Let_def

lemma relay_two_value:
  "relay_two =
     \<lparr> activeUsers =
         [(''u1'', \<lparr> socketId = ''sa'', username = ''alice'', conn_joinedAt = 0,
                    currentRoom = Some ''R1'', vrPosition = JNull, vrRotation = JNull \<rparr>),
          (''u2'', \<lparr> socketId = ''sb'', username = ''bob'', conn_joinedAt = 1,
                    currentRoom = Some ''R1'', vrPosition = JNull, vrRotation = JNull \<rparr>)],
       vrSessions = [(''R1'', room_two)],
       chatRooms = [],
       socketRooms = [(''sa'', [''sa'', ''R1'']), (''sb'', [''sb'', ''R1''])] \<rparr>"
  by (simp add: relay_two_def room_two_def server0_def sockA_def sockB_def relay_defs)

lemma room_of_two:
  "room_of relay_two sockA = Some (''R1'', room_two)"
  "room_of relay_two sockB = Some (''R1'', room_two)"
  by (simp_all add: relay_two_value room_of_def joined_room_def sockA_def sockB_def)
lemma relay_pair_value:
  "relay_pair =
     \<lparr> activeUsers =
         [(''u1'', \<lparr> socketId = ''sa'', username = ''alice'', conn_joinedAt = 0,
                    currentRoom = Some ''R1'', vrPosition = JNull, vrRotation = JNull \<rparr>),
          (''u2'', \<lparr> socketId = ''sb'', username = ''bob'', conn_joinedAt = 1,
                    currentRoom = Some ''R1'', vrPosition = JNull, vrRotation = JNull \<rparr>)],
       vrSessions = [(''R1'', room_pair)],
       chatRooms = [],
       socketRooms = [(''sa'', [''sa'', ''R1'']), (''sb'', [''sb'', ''R1''])] \<rparr>"
  by (simp add: relay_pair_def room_pair_def server0_def sockA_def sockB_def relay_defs)

lemma room_of_pair:
  "room_of relay_pair sockA = Some (''R1'', room_pair)"
  "room_of relay_pair sockB = Some (''R1'', room_pair)"
  by (simp_all add: relay_pair_value room_of_def joined_room_def sockA_def sockB_def)


section \<open>Relay: switching rooms\<close>

lemma vrSessions_socket_ops:
  "vrSessions (socket_join s r st) = vrSessions st"
  "vrSessions (socket_leave s r st) = vrSessions st"
  "activeUsers (socket_join s r st) = activeUsers st"
  "activeUsers (socket_leave s r st) = activeUsers st"
  by (simp_all add: socket_join_def socket_leave_def)

lemma join_vr_session_rooms:
  assumes "map_of (activeUsers st) (userId sock) = Some u"
  shows "vrSessions (fst (join_vr_session sock sid now st)) =
     (case map_of (vrSessions st) sid of
        None \<Rightarrow> AList.update sid
                  \<lparr> room_id = sid, users = [userId sock], room_createdAt = now, sharedObjects = [] \<rparr>
                  (vrSessions st)
      | Some sess \<Rightarrow> AList.update sid (sess\<lparr>users := set_add (userId sock) (users sess)\<rparr>)
                  (vrSessions st))"
proof (cases "map_of (vrSessions st) sid")
  case None
  with assms show ?thesis
    by (simp add: join_vr_session_def vrSessions_socket_ops update_conv' set_add_def Let_def
        split: option.split)
next
  case (Some sess)
  with assms show ?thesis
    by (simp add: join_vr_session_def vrSessions_socket_ops Let_def split: option.split)
qed

lemma join_keeps_members:
  assumes "map_of (vrSessions st) r = Some sess"
  shows "\<exists>sess'. map_of (vrSessions (fst (join_vr_session sock sid now st))) r = Some sess'
           \<and> set (users sess) \<subseteq> set (users sess')"
proof (cases "map_of (activeUsers st) (userId sock)")
  case None
  with assms show ?thesis by (simp add: join_vr_session_def)
next
  case (Some u)
  show ?thesis
  proof (cases "r = sid")
    case True
    with assms Some show ?thesis
      by (auto simp: join_vr_session_rooms update_conv' set_add_def)
  next
    case False
    with assms Some show ?thesis
      by (simp add: join_vr_session_rooms update_conv' split: option.split)
  qed
qed

lemma join_vr_session_user:
  assumes "map_of (activeUsers st) (userId sock) = Some u"
  shows "activeUsers (fst (join_vr_session sock sid now st)) =
     AList.update (userId sock) (u\<lparr>currentRoom := Some sid\<rparr>) (activeUsers st)"
  using assms
  by (simp add: join_vr_session_def vrSessions_socket_ops update_conv' Let_def
      split: option.split)

lemma join_vr_session_socket:
  assumes "map_of (activeUsers st) (userId sock) = Some u"
  shows "socketRooms (fst (join_vr_session sock sid now st)) =
     socketRooms (socket_join (sock_id sock) sid
       (case joined_room u of None \<Rightarrow> st | Some prev \<Rightarrow> socket_leave (sock_id sock) prev st))"
  using assms
  by (simp add: join_vr_session_def vrSessions_socket_ops update_conv' Let_def
      split: option.split)

lemma join_vr_session_effect:
  assumes "map_of (activeUsers st) (userId sock) = Some u"
  shows "map_of (activeUsers (fst (join_vr_session sock sid now st))) (userId sock) =
             Some (u\<lparr>currentRoom := Some sid\<rparr>)
     \<and> (\<exists>sess'. map_of (vrSessions (fst (join_vr_session sock sid now st))) sid = Some sess'
           \<and> userId sock \<in> set (users sess'))
     \<and> (\<exists>rs. map_of (socketRooms (fst (join_vr_session sock sid now st))) (sock_id sock) = Some rs
           \<and> sid \<in> set rs
           \<and> (\<forall>prev. joined_room u = Some prev \<and> prev \<noteq> sid \<longrightarrow> prev \<notin> set rs))"
proof (intro conjI)
  show "map_of (activeUsers (fst (join_vr_session sock sid now st))) (userId sock) =
             Some (u\<lparr>currentRoom := Some sid\<rparr>)"
    by (simp add: join_vr_session_user [OF assms] update_conv')
  show "\<exists>sess'. map_of (vrSessions (fst (join_vr_session sock sid now st))) sid = Some sess'
           \<and> userId sock \<in> set (users sess')"
    by (cases "map_of (vrSessions st) sid")
       (simp_all add: join_vr_session_rooms [OF assms] update_conv' set_add_def)
  show "\<exists>rs. map_of (socketRooms (fst (join_vr_session sock sid now st))) (sock_id sock) = Some rs
           \<and> sid \<in> set rs
           \<and> (\<forall>prev. joined_room u = Some prev \<and> prev \<noteq> sid \<longrightarrow> prev \<notin> set rs)"
    by (cases "joined_room u")
       (auto simp: join_vr_session_socket [OF assms] socket_join_def socket_leave_def
          update_conv' set_add_def)
qed

text \<open>
  C3. The handler records the new room, creates it when absent, adds the user to its
  member set and takes the socket out of the socket library's prior room
  (\<open>join_vr_session_effect\<close>), but it never removes a user from the member set of any
  room (\<open>join_keeps_members\<close>). Here alice connects, joins room A and then room B: she
  is still a member of A, and after she disconnects room A remains in the table with her
  as its only member, while room B is removed.
\<close>

theorem join_keeps_prior_room_member:
  "relay_state (dispatch_all switch_events server0) =
     \<lparr> activeUsers =
         [(''u1'', \<lparr> socketId = ''sa'', username = ''alice'', conn_joinedAt = 0,
                    currentRoom = Some ''B'', vrPosition = JNull, vrRotation = JNull \<rparr>)],
       vrSessions =
         [(''A'', \<lparr> room_id = ''A'', users = [''u1''], room_createdAt = 1, sharedObjects = [] \<rparr>),
          (''B'', \<lparr> room_id = ''B'', users = [''u1''], room_createdAt = 2, sharedObjects = [] \<rparr>)],
       chatRooms = [],
       socketRooms = [(''sa'', [''sa'', ''B''])] \<rparr>
   \<and> relay_state (dispatch_all (switch_events @ [(sockA, Disconnect)]) server0) =
     \<lparr> activeUsers = [],
       vrSessions =
         [(''A'', \<lparr> room_id = ''A'', users = [''u1''], room_createdAt = 1, sharedObjects = [] \<rparr>)],
       chatRooms = [],
       socketRooms = [] \<rparr>"
  by (simp add: switch_events_def server0_def sockA_def relay_defs on_disconnect_def)

section \<open>Relay: the bounded chat log\<close>

lemma last_n_length: "length (last_n n xs) \<le> n"
  by (simp add: last_n_def)

lemma last_n_id: "length xs \<le> n \<Longrightarrow> last_n n xs = xs"
  by (simp add: last_n_def)

lemma last_n_append: "last_n n (last_n n xs @ ys) = last_n n (xs @ ys)"
proof (cases "length xs \<le> n")
  case True
  then show ?thesis by (simp add: last_n_id)
next
  case False
  then show ?thesis by (simp add: last_n_def add.commute)
qed

lemma room_log_update:
  "room_log (st\<lparr>chatRooms := AList.update r l rooms\<rparr>) r' =
     (if r' = r then l else case map_of rooms r' of None \<Rightarrow> [] | Some x \<Rightarrow> x)"
  by (simp add: room_log_def update_conv')

lemma send_chat_message_log:
  assumes "map_of (activeUsers st) (userId sock) = Some u"
  shows "room_log (fst (send_chat_message sock m data_room uuid now st)) r' =
     (if r' = or_str data_room ''global''
      then last_n 100 (room_log st r' @
             [\<lparr> rm_id = uuid, rm_userId = userId sock, rm_username = username u,
                rm_message = m, rm_timestamp = now, rm_room = r' \<rparr>])
      else room_log st r')"
  using assms
  by (auto simp: send_chat_message_def Let_def room_log_update room_log_def update_conv' last_n_def
      split: option.splits)

lemma send_chat_message_absent:
  "map_of (activeUsers st) (userId sock) = None \<Longrightarrow>
   send_chat_message sock m data_room uuid now st = (st, [])"
  by (simp add: send_chat_message_def)

lemma chatRooms_other_handlers:
  "chatRooms (fst (on_connection sock now st)) = chatRooms st"
  "chatRooms (fst (join_vr_session sock sid now st)) = chatRooms st"
  "chatRooms (fst (vr_position_update sock pos rot st)) = chatRooms st"
  "chatRooms (fst (create_shared_object sock i data uuid now st)) = chatRooms st"
  "chatRooms (fst (update_shared_object sock j updates st)) = chatRooms st"
  "chatRooms (fst (get_chat_history sock data_room st)) = chatRooms st"
  "chatRooms (fst (on_disconnect sock st)) = chatRooms st"
  by (simp_all add: on_connection_def join_vr_session_def vr_position_update_def
      create_shared_object_def update_shared_object_def get_chat_history_def on_disconnect_def
      socket_join_def socket_leave_def Let_def split: option.splits prod.splits)

lemma handler_log:
  "room_log (fst (relay_handler sock ev st)) r =
     last_n 100 (room_log st r @ appended r [(sock, ev)] st)
   \<or> (appended r [(sock, ev)] st = [] \<and> room_log (fst (relay_handler sock ev st)) r = room_log st r)"
proof (cases ev)
  case (SendChatMessage m data_room uuid now)
  show ?thesis
  proof (cases "map_of (activeUsers st) (userId sock)")
    case None
    with SendChatMessage show ?thesis by (simp add: send_chat_message_absent)
  next
    case (Some u)
    with SendChatMessage show ?thesis
      by (simp add: send_chat_message_log)
  qed
qed (simp_all add: chatRooms_other_handlers room_log_def)

lemma handler_log_bounded:
  assumes "length (room_log st r) \<le> 100"
  shows "room_log (fst (relay_handler sock ev st)) r =
     last_n 100 (room_log st r @ appended r [(sock, ev)] st)"
  using handler_log [of sock ev st r] assms by (auto simp: last_n_id)

lemma relay_state_dispatch:
  "relay_state (fst (dispatch sock ev srv)) = fst (relay_handler sock ev (relay_state srv))"
  by (simp add: dispatch_def split: prod.splits)

lemma store_dispatch: "store (fst (dispatch sock ev srv)) = store srv"
  by (simp add: dispatch_def split: prod.splits)

lemma store_dispatch_all: "store (dispatch_all evs srv) = store srv"
proof (induction evs arbitrary: srv)
  case Nil
  then show ?case by simp
next
  case (Cons a evs)
  obtain sock ev where "a = (sock, ev)" by (cases a)
  with Cons.IH [of "fst (dispatch sock ev srv)"] show ?case by (simp add: store_dispatch)
qed

lemma dispatch_all_log:
  "length (room_log (relay_state srv) r) \<le> 100 \<Longrightarrow>
   room_log (relay_state (dispatch_all evs srv)) r =
     last_n 100 (room_log (relay_state srv) r @ appended r evs (relay_state srv))"
proof (induction evs arbitrary: srv)
  case Nil
  then show ?case by (simp add: last_n_id)
next
  case (Cons a evs)
  obtain sock ev where a: "a = (sock, ev)" by (cases a)
  let ?srv1 = "fst (dispatch sock ev srv)"
  let ?st = "relay_state srv"
  have s1: "relay_state ?srv1 = fst (relay_handler sock ev ?st)" by (rule relay_state_dispatch)
  have l1: "room_log (relay_state ?srv1) r = last_n 100 (room_log ?st r @ appended r [(sock, ev)] ?st)"
    unfolding s1 using Cons.prems by (rule handler_log_bounded)
  then have b1: "length (room_log (relay_state ?srv1) r) \<le> 100" by (simp add: last_n_length)
  have "room_log (relay_state (dispatch_all evs ?srv1)) r =
      last_n 100 (room_log (relay_state ?srv1) r @ appended r evs (relay_state ?srv1))"
    using b1 by (rule Cons.IH)
  also have "\<dots> = last_n 100 ((room_log ?st r @ appended r [(sock, ev)] ?st)
      @ appended r evs (relay_state ?srv1))"
    unfolding l1 by (rule last_n_append)
  also have "(room_log ?st r @ appended r [(sock, ev)] ?st) @ appended r evs (relay_state ?srv1) =
      room_log ?st r @ appended r ((sock, ev) # evs) ?st"
    unfolding s1 by simp
  finally show ?case using a by simp
qed


text \<open>
  C7. A \<^verbatim>\<open>send_chat_message\<close> of a connected user leaves the log of its room equal to
  the last 100 entries of the former log followed by the new message, hence at most 100
  long. Over any history of relay events from a state whose log of room \<open>r\<close> has at most
  100 entries, the log of \<open>r\<close> is the last 100 of the former log followed by the
  messages appended to \<open>r\<close>, in arrival order. The durable stores are the same after a
  relay event, and after any history of them, as before.
\<close>

theorem chat_log_last_100:
  "(map_of (activeUsers (relay_state srv)) (userId sock) = Some u \<longrightarrow>
      room_log (relay_state (fst (dispatch sock (SendChatMessage m data_room uuid now) srv)))
          (or_str data_room ''global'') =
        last_n 100 (room_log (relay_state srv) (or_str data_room ''global'') @
          [\<lparr> rm_id = uuid, rm_userId = userId sock, rm_username = username u, rm_message = m,
             rm_timestamp = now, rm_room = or_str data_room ''global'' \<rparr>])
      \<and> length (room_log (relay_state (fst (dispatch sock (SendChatMessage m data_room uuid now) srv)))
          (or_str data_room ''global'')) \<le> 100)
   \<and> (length (room_log (relay_state srv) r) \<le> 100 \<longrightarrow>
        room_log (relay_state (dispatch_all evs srv)) r =
          last_n 100 (room_log (relay_state srv) r @ appended r evs (relay_state srv))
        \<and> length (room_log (relay_state (dispatch_all evs srv)) r) \<le> 100)
   \<and> store (fst (dispatch sock (SendChatMessage m data_room uuid now) srv)) = store srv
   \<and> store (dispatch_all evs srv) = store srv"
proof (intro conjI impI)
  assume u: "map_of (activeUsers (relay_state srv)) (userId sock) = Some u"
  then show l: "room_log (relay_state (fst (dispatch sock (SendChatMessage m data_room uuid now) srv)))
          (or_str data_room ''global'') =
        last_n 100 (room_log (relay_state srv) (or_str data_room ''global'') @
          [\<lparr> rm_id = uuid, rm_userId = userId sock, rm_username = username u, rm_message = m,
             rm_timestamp = now, rm_room = or_str data_room ''global'' \<rparr>])"
    by (simp add: relay_state_dispatch send_chat_message_log)
  show "length (room_log (relay_state (fst (dispatch sock (SendChatMessage m data_room uuid now) srv)))
          (or_str data_room ''global'')) \<le> 100"
    unfolding l by (rule last_n_length)
next
  assume b: "length (room_log (relay_state srv) r) \<le> 100"
  then show l: "room_log (relay_state (dispatch_all evs srv)) r =
          last_n 100 (room_log (relay_state srv) r @ appended r evs (relay_state srv))"
    by (rule dispatch_all_log)
  show "length (room_log (relay_state (dispatch_all evs srv)) r) \<le> 100"
    unfolding l by (rule last_n_length)
next
  show "store (fst (dispatch sock (SendChatMessage m data_room uuid now) srv)) = store srv"
    by (rule store_dispatch)
  show "store (dispatch_all evs srv) = store srv" by (rule store_dispatch_all)
qed

theorem chat_log_last_100_witness:
  "map_of (activeUsers (relay_state server_full)) (userId sockA) =
     Some \<lparr> socketId = ''sa'', username = ''alice'', conn_joinedAt = 0,
            currentRoom = Some ''R1'', vrPosition = JNull, vrRotation = JNull \<rparr>
   \<and> length (room_log (relay_state server_full) ''global'') = 100
   \<and> room_log (relay_state (fst (dispatch sockA (SendChatMessage (JStr ''hi'') None ''c1'' 9)
        server_full))) ''global'' =
       replicate 99 old_msg @
         [\<lparr> rm_id = ''c1'', rm_userId = ''u1'', rm_username = ''alice'', rm_message = JStr ''hi'',
            rm_timestamp = 9, rm_room = ''global'' \<rparr>]
   \<and> length (room_log (relay_state server0) ''global'') = 0
   \<and> room_log (relay_state (dispatch_all chat_events server0)) ''global'' =
       [\<lparr> rm_id = ''c1'', rm_userId = ''u1'', rm_username = ''alice'', rm_message = JStr ''a'',
          rm_timestamp = 1, rm_room = ''global'' \<rparr>,
        \<lparr> rm_id = ''c4'', rm_userId = ''u1'', rm_username = ''alice'', rm_message = JStr ''c'',
          rm_timestamp = 4, rm_room = ''global'' \<rparr>]
   \<and> store (dispatch_all chat_events server0) = chat_db"
proof -
  let ?u = "\<lparr> socketId = ''sa'', username = ''alice'', conn_joinedAt = 0,
            currentRoom = Some ''R1'', vrPosition = JNull, vrRotation = JNull \<rparr>"
  have h1: "map_of (activeUsers (relay_state server_full)) (userId sockA) = Some ?u"
    by (simp add: server_full_def relay_pair_value sockA_def)
  have l0: "room_log (relay_state server_full) ''global'' = replicate 100 old_msg"
    by (simp add: server_full_def room_log_def)
  have h2: "length (room_log (relay_state server0) ''global'') = 0"
    by (simp add: server0_def initial_relay_def room_log_def)
  have ap: "appended ''global'' chat_events (relay_state server0) =
       [\<lparr> rm_id = ''c1'', rm_userId = ''u1'', rm_username = ''alice'', rm_message = JStr ''a'',
          rm_timestamp = 1, rm_room = ''global'' \<rparr>,
        \<lparr> rm_id = ''c4'', rm_userId = ''u1'', rm_username = ''alice'', rm_message = JStr ''c'',
          rm_timestamp = 4, rm_room = ''global'' \<rparr>]"
    by (simp add: chat_events_def server0_def initial_relay_def on_connection_def
        send_chat_message_def socket_join_def set_add_def or_str_def Let_def sockA_def sockB_def)
  from chat_log_last_100 [of server_full sockA ?u "JStr ''hi''" None "''c1''" 9 "''global''" "[]"] h1 l0
  have c1: "room_log (relay_state (fst (dispatch sockA (SendChatMessage (JStr ''hi'') None ''c1'' 9)
        server_full))) ''global'' =
       replicate 99 old_msg @
         [\<lparr> rm_id = ''c1'', rm_userId = ''u1'', rm_username = ''alice'', rm_message = JStr ''hi'',
            rm_timestamp = 9, rm_room = ''global'' \<rparr>]"
    by (simp add: or_str_def last_n_def sockA_def)
  from chat_log_last_100 [of server0 sockA ?u "JStr ''hi''" None "''c1''" 9 "''global''" chat_events]
    h2 ap
  have c2: "room_log (relay_state (dispatch_all chat_events server0)) ''global'' =
       [\<lparr> rm_id = ''c1'', rm_userId = ''u1'', rm_username = ''alice'', rm_message = JStr ''a'',
          rm_timestamp = 1, rm_room = ''global'' \<rparr>,
        \<lparr> rm_id = ''c4'', rm_userId = ''u1'', rm_username = ''alice'', rm_message = JStr ''c'',
          rm_timestamp = 4, rm_room = ''global'' \<rparr>]"
    and c3: "store (dispatch_all chat_events server0) = chat_db"
    by (simp_all add: last_n_def server0_def)
  from h1 l0 h2 c1 c2 c3 show ?thesis by simp
qed

section \<open>Relay: updating a shared object\<close>

lemma map_of_object_assign:
  "map_of (object_assign object updates) = map_of object ++ map_of (rev updates)"
  unfolding object_assign_def
proof (induction updates arbitrary: object)
  case Nil
  then show ?case by simp
next
  case (Cons kv us)
  obtain k v where kv: "kv = (k, v)" by (cases kv)
  have ih: "map_of (fold (\<lambda>(k, v). AList.update k v) us (AList.update k v object)) =
      map_of (AList.update k v object) ++ map_of (rev us)"
    by (rule Cons.IH)
  have r: "map_of (rev us @ [(k, v)]) x = (map_of [(k, v)] ++ map_of (rev us)) x" for x
    by (simp only: map_of_append)
  have "(map_of (AList.update k v object) ++ map_of (rev us)) x =
      (map_of object ++ map_of (rev us @ [(k, v)])) x" for x
    unfolding r by (simp add: update_conv' map_add_def split: option.splits)
  then have "map_of (AList.update k v object) ++ map_of (rev us) =
      map_of object ++ map_of (rev us @ [(k, v)])" by (rule ext)
  with ih kv show ?case by simp
qed

lemma keys_object_assign_old:
  "k \<notin> fst ` set updates \<Longrightarrow> map_of (object_assign object updates) k = map_of object k"
proof -
  assume "k \<notin> fst ` set updates"
  then have "map_of (rev updates) k = None"
    by (simp add: map_of_eq_None_iff)
  then show ?thesis by (simp add: map_of_object_assign map_add_def)
qed


text \<open>
  C8. When the caller's room holds an object under the id sent, the handler writes the
  supplied fields over the object's, leaving the fields not supplied as they were, and
  sends the patch to the room except the caller. When the caller is in no room, or the
  room holds no object under the id, the relay is left as it was and nothing is sent.
\<close>

theorem update_shared_object_merge:
  "(room_of st sock = Some (r, sess) \<and> map_of (sharedObjects sess) i = Some object
      \<longrightarrow> update_shared_object sock i updates st =
            (st\<lparr>vrSessions := AList.update r
                 (sess\<lparr>sharedObjects :=
                    AList.update i (object_assign object updates) (sharedObjects sess)\<rparr>)
                 (vrSessions st)\<rparr>,
             [(InRoomExcept r (sock_id sock), SharedObjectUpdated i updates)])
          \<and> map_of (object_assign object updates) = map_of object ++ map_of (rev updates)
          \<and> (\<forall>k. k \<notin> fst ` set updates
                \<longrightarrow> map_of (object_assign object updates) k = map_of object k))
   \<and> (room_of st sock = None
        \<or> (\<exists>r sess. room_of st sock = Some (r, sess) \<and> map_of (sharedObjects sess) i = None)
      \<longrightarrow> update_shared_object sock i updates st = (st, []))"
proof (intro conjI impI allI)
  assume a: "room_of st sock = Some (r, sess) \<and> map_of (sharedObjects sess) i = Some object"
  then show "update_shared_object sock i updates st =
            (st\<lparr>vrSessions := AList.update r
                 (sess\<lparr>sharedObjects :=
                    AList.update i (object_assign object updates) (sharedObjects sess)\<rparr>)
                 (vrSessions st)\<rparr>,
             [(InRoomExcept r (sock_id sock), SharedObjectUpdated i updates)])"
    by (auto simp: room_of_def update_shared_object_def split: option.splits)
next
  show "map_of (object_assign object updates) = map_of object ++ map_of (rev updates)"
    by (rule map_of_object_assign)
next
  fix k assume "k \<notin> fst ` set updates"
  then show "map_of (object_assign object updates) k = map_of object k"
    by (rule keys_object_assign_old)
next
  assume "room_of st sock = None
        \<or> (\<exists>r sess. room_of st sock = Some (r, sess) \<and> map_of (sharedObjects sess) i = None)"
  then show "update_shared_object sock i updates st = (st, [])"
    by (auto simp: room_of_def update_shared_object_def split: option.splits)
qed

theorem update_shared_object_merge_witness:
  "room_of relay_two sockB = Some (''R1'', room_two)
   \<and> map_of (sharedObjects room_two) ''box1'' = Some (build_shared_object ''box1'' box_data ''u1'' 4)
   \<and> update_shared_object sockB ''box1'' box_updates relay_two =
       (relay_two\<lparr>vrSessions :=
          [(''R1'', room_two\<lparr>sharedObjects :=
              [(''box1'',
                [(''id'', JStr ''box1''), (''type'', JStr ''box''), (''position'', vec3 1 2 3),
                 (''rotation'', JUndefined), (''scale'', JUndefined), (''properties'', JUndefined),
                 (''createdBy'', JStr ''u1''), (''createdAt'', JDate 4),
                 (''color'', JStr ''red'')])]\<rparr>)]\<rparr>,
        [(InRoomExcept ''R1'' ''sb'', SharedObjectUpdated ''box1'' box_updates)])
   \<and> map_of (sharedObjects room_two) ''nope'' = None
   \<and> update_shared_object sockB ''nope'' box_updates relay_two = (relay_two, [])"
proof -
  have h1: "room_of relay_two sockB = Some (''R1'', room_two)
      \<and> map_of (sharedObjects room_two) ''box1'' = Some (build_shared_object ''box1'' box_data ''u1'' 4)"
    by (simp add: room_of_two room_two_def)
  have h2: "map_of (sharedObjects room_two) ''nope'' = None"
    by (simp add: room_two_def)
  have m: "object_assign (build_shared_object ''box1'' box_data ''u1'' 4) box_updates =
      [(''id'', JStr ''box1''), (''type'', JStr ''box''), (''position'', vec3 1 2 3),
       (''rotation'', JUndefined), (''scale'', JUndefined), (''properties'', JUndefined),
       (''createdBy'', JStr ''u1''), (''createdAt'', JDate 4), (''color'', JStr ''red'')]"
    by (simp add: object_assign_def build_shared_object_def box_data_def box_updates_def field_def)
  from update_shared_object_merge [of relay_two sockB "''R1''" room_two "''box1''"
      "build_shared_object ''box1'' box_data ''u1'' 4" box_updates] h1
  have c1: "update_shared_object sockB ''box1'' box_updates relay_two =
       (relay_two\<lparr>vrSessions := AList.update ''R1''
          (room_two\<lparr>sharedObjects := AList.update ''box1''
             (object_assign (build_shared_object ''box1'' box_data ''u1'' 4) box_updates)
             (sharedObjects room_two)\<rparr>) (vrSessions relay_two)\<rparr>,
        [(InRoomExcept ''R1'' (sock_id sockB), SharedObjectUpdated ''box1'' box_updates)])"
    by blast
  from update_shared_object_merge [of relay_two sockB "''R1''" room_two "''nope''"
      "build_shared_object ''box1'' box_data ''u1'' 4" box_updates] h1 h2
  have c2: "update_shared_object sockB ''nope'' box_updates relay_two = (relay_two, [])"
    by blast
  have v: "vrSessions relay_two = [(''R1'', room_two)]" by (simp add: relay_two_value)
  have o: "sharedObjects room_two = [(''box1'', build_shared_object ''box1'' box_data ''u1'' 4)]"
    by (simp add: room_two_def)
  from c1 have c1': "update_shared_object sockB ''box1'' box_updates relay_two =
       (relay_two\<lparr>vrSessions :=
          [(''R1'', room_two\<lparr>sharedObjects :=
              [(''box1'',
                [(''id'', JStr ''box1''), (''type'', JStr ''box''), (''position'', vec3 1 2 3),
                 (''rotation'', JUndefined), (''scale'', JUndefined), (''properties'', JUndefined),
                 (''createdBy'', JStr ''u1''), (''createdAt'', JDate 4),
                 (''color'', JStr ''red'')])]\<rparr>)]\<rparr>,
        [(InRoomExcept ''R1'' ''sb'', SharedObjectUpdated ''box1'' box_updates)])"
    unfolding m v o by (simp add: sockB_def)
  from h1 h2 c1' c2 show ?thesis by simp
qed


section \<open>Relay: creating a shared object twice\<close>

lemma create_in_room:
  assumes "room_of st sock = Some (r, sess)" and "i \<noteq> []"
  shows "create_shared_object sock (Some i) data uuid now st =
      (st\<lparr>vrSessions := AList.update r
           (sess\<lparr>sharedObjects :=
              AList.update i (build_shared_object i data (userId sock) now) (sharedObjects sess)\<rparr>)
           (vrSessions st)\<rparr>,
       [(InRoom r, SharedObjectCreated (build_shared_object i data (userId sock) now))])"
  using assms
  by (auto simp: room_of_def create_shared_object_def or_str_def Let_def split: option.splits)

lemma room_of_other_after_update:
  "room_of st sock = Some (r, sess) \<Longrightarrow>
   room_of (st\<lparr>vrSessions := AList.update r sess' (vrSessions st)\<rparr>) sock = Some (r, sess')"
  by (auto simp: room_of_def update_conv' split: option.splits)

lemma update_keys_present:
  "map_of al k = Some v \<Longrightarrow> map fst (AList.update k v' al) = map fst al"
proof (induction al)
  case Nil
  then show ?case by simp
next
  case (Cons p al)
  then show ?case by (cases p) (auto split: if_splits)
qed


text \<open>
  C9. Two users of one room create an object under the same id, one after the other;
  the id is a non-empty string (an empty one counts as none sent, and an identifier is
  generated). Both creates are broadcast to the room; after the second, the room holds under
  that id the object built from the second descriptor, with the second caller as its
  creator, in the place of the first, and every other object as before.
\<close>

theorem create_same_id_overwrites:
  "room_of st sock1 = Some (r, sess) \<and> room_of st sock2 = Some (r, sess) \<and> i \<noteq> [] \<longrightarrow>
     (\<exists>st1 sess1 st2 sess2.
        create_shared_object sock1 (Some i) data1 uuid1 t1 st =
          (st1, [(InRoom r, SharedObjectCreated (build_shared_object i data1 (userId sock1) t1))])
        \<and> room_of st1 sock2 = Some (r, sess1)
        \<and> map_of (sharedObjects sess1) i = Some (build_shared_object i data1 (userId sock1) t1)
        \<and> create_shared_object sock2 (Some i) data2 uuid2 t2 st1 =
          (st2, [(InRoom r, SharedObjectCreated (build_shared_object i data2 (userId sock2) t2))])
        \<and> room_of st2 sock2 = Some (r, sess2)
        \<and> map_of (sharedObjects sess2) i = Some (build_shared_object i data2 (userId sock2) t2)
        \<and> field (build_shared_object i data2 (userId sock2) t2) ''createdBy'' = JStr (userId sock2)
        \<and> map fst (sharedObjects sess2) = map fst (sharedObjects sess1)
        \<and> (\<forall>k. k \<noteq> i \<longrightarrow> map_of (sharedObjects sess2) k = map_of (sharedObjects sess1) k))"
proof
  assume a: "room_of st sock1 = Some (r, sess) \<and> room_of st sock2 = Some (r, sess) \<and> i \<noteq> []"
  let ?o1 = "build_shared_object i data1 (userId sock1) t1"
  let ?o2 = "build_shared_object i data2 (userId sock2) t2"
  let ?sess1 = "sess\<lparr>sharedObjects := AList.update i ?o1 (sharedObjects sess)\<rparr>"
  let ?st1 = "st\<lparr>vrSessions := AList.update r ?sess1 (vrSessions st)\<rparr>"
  let ?sess2 = "?sess1\<lparr>sharedObjects := AList.update i ?o2 (sharedObjects ?sess1)\<rparr>"
  let ?st2 = "?st1\<lparr>vrSessions := AList.update r ?sess2 (vrSessions ?st1)\<rparr>"
  from a have c1: "create_shared_object sock1 (Some i) data1 uuid1 t1 st =
      (?st1, [(InRoom r, SharedObjectCreated ?o1)])"
    by (simp add: create_in_room)
  from a have r1: "room_of ?st1 sock2 = Some (r, ?sess1)"
    by (simp add: room_of_other_after_update)
  have m1: "map_of (sharedObjects ?sess1) i = Some ?o1" by (simp add: update_conv')
  from r1 a have c2: "create_shared_object sock2 (Some i) data2 uuid2 t2 ?st1 =
      (?st2, [(InRoom r, SharedObjectCreated ?o2)])"
    by (simp add: create_in_room)
  from r1 have r2: "room_of ?st2 sock2 = Some (r, ?sess2)"
    by (rule room_of_other_after_update)
  have m2: "map_of (sharedObjects ?sess2) i = Some ?o2" by (simp add: update_conv')
  have cb: "field ?o2 ''createdBy'' = JStr (userId sock2)"
    by (simp add: field_def build_shared_object_def)
  have k: "map fst (sharedObjects ?sess2) = map fst (sharedObjects ?sess1)"
    using update_keys_present [OF m1] by simp
  have o: "\<forall>k. k \<noteq> i \<longrightarrow> map_of (sharedObjects ?sess2) k = map_of (sharedObjects ?sess1) k"
    by (simp add: update_conv')
  from c1 r1 m1 c2 r2 m2 cb k o
  show "\<exists>st1 sess1 st2 sess2.
        create_shared_object sock1 (Some i) data1 uuid1 t1 st =
          (st1, [(InRoom r, SharedObjectCreated ?o1)])
        \<and> room_of st1 sock2 = Some (r, sess1)
        \<and> map_of (sharedObjects sess1) i = Some ?o1
        \<and> create_shared_object sock2 (Some i) data2 uuid2 t2 st1 =
          (st2, [(InRoom r, SharedObjectCreated ?o2)])
        \<and> room_of st2 sock2 = Some (r, sess2)
        \<and> map_of (sharedObjects sess2) i = Some ?o2
        \<and> field ?o2 ''createdBy'' = JStr (userId sock2)
        \<and> map fst (sharedObjects sess2) = map fst (sharedObjects sess1)
        \<and> (\<forall>k. k \<noteq> i \<longrightarrow> map_of (sharedObjects sess2) k = map_of (sharedObjects sess1) k)"
    by blast
qed

theorem create_same_id_overwrites_witness:
  "room_of relay_pair sockA = Some (''R1'', room_pair)
   \<and> room_of relay_pair sockB = Some (''R1'', room_pair)
   \<and> create_shared_object sockB (Some ''box1'') ball_data ''g2'' 5
        (fst (create_shared_object sockA (Some ''box1'') box_data ''g1'' 4 relay_pair)) =
       (relay_pair\<lparr>vrSessions :=
          [(''R1'', room_pair\<lparr>sharedObjects :=
                      [(''box1'', build_shared_object ''box1'' ball_data ''u2'' 5)]\<rparr>)]\<rparr>,
        [(InRoom ''R1'', SharedObjectCreated (build_shared_object ''box1'' ball_data ''u2'' 5))])"
proof -
  note h = room_of_pair
  from create_same_id_overwrites [of relay_pair sockA "''R1''" room_pair sockB "''box1''"
      box_data "''g1''" 4 ball_data "''g2''" 5] h
  obtain st1 sess1 st2 sess2 where
    c1: "create_shared_object sockA (Some ''box1'') box_data ''g1'' 4 relay_pair =
          (st1, [(InRoom ''R1'', SharedObjectCreated (build_shared_object ''box1'' box_data (userId sockA) 4))])"
    and c2: "create_shared_object sockB (Some ''box1'') ball_data ''g2'' 5 st1 =
          (st2, [(InRoom ''R1'', SharedObjectCreated (build_shared_object ''box1'' ball_data (userId sockB) 5))])"
    by auto
  have e: "fst (create_shared_object sockB (Some ''box1'') ball_data ''g2'' 5
        (fst (create_shared_object sockA (Some ''box1'') box_data ''g1'' 4 relay_pair))) =
       relay_pair\<lparr>vrSessions :=
          [(''R1'', room_pair\<lparr>sharedObjects :=
                      [(''box1'', build_shared_object ''box1'' ball_data ''u2'' 5)]\<rparr>)]\<rparr>"
    by (simp add: relay_pair_value room_pair_def create_shared_object_def joined_room_def
        or_str_def Let_def sockA_def sockB_def)
  from c1 c2 have "snd (create_shared_object sockB (Some ''box1'') ball_data ''g2'' 5
        (fst (create_shared_object sockA (Some ''box1'') box_data ''g1'' 4 relay_pair))) =
      [(InRoom ''R1'', SharedObjectCreated (build_shared_object ''box1'' ball_data ''u2'' 5))]"
    by (simp add: sockB_def)
  with e h show ?thesis by (simp add: prod_eq_iff)
qed


end
